theory Spec2Isabelle
  imports Main "HOL-Library.AList" "HOL-Library.Char_ord" "HOL-Library.List_Lexorder"
    "HOL-Library.Multiset" "HOL-Library.Sublist"
begin

chapter \<open>CoreSight: log normalization and query engine\<close>

text \<open>
  A shallow embedding of the parsing and query code of the CoreSight repository
  (\<^verbatim>\<open>coresight_engine.py\<close>, \<^verbatim>\<open>parsers/\<close>, \<^verbatim>\<open>utils/log_ingester.py\<close>,
  \<^verbatim>\<open>index/indexer.py\<close>, \<^verbatim>\<open>search/query_parser.py\<close>, \<^verbatim>\<open>search/query_engine.py\<close>).
  Every definition keeps the name of the Python function it embeds. Functions of the
  Python standard library that the code calls (\<^verbatim>\<open>str\<close> methods, \<^verbatim>\<open>re\<close>,
  \<^verbatim>\<open>datetime\<close>, \<^verbatim>\<open>json\<close>, \<^verbatim>\<open>xml.etree\<close>) are modelled in the sections
  named after them; characters are the 8-bit characters of HOL and the character
  classes are the ASCII ones.
\<close>

section \<open>Python values and strings\<close>

text \<open>
  The values a row of the SQLite table or a parsed dictionary holds: \<^verbatim>\<open>None\<close>, an
  integer or a string. A dictionary is an association list in insertion order, as
  Python dictionaries are; \<^verbatim>\<open>d.get(k)\<close> is \<open>dict_get\<close>.
\<close>

datatype pyval = PyNone | PyInt int | PyStr string

type_synonym pydict = "(string \<times> pyval) list"

fun truthy :: "pyval \<Rightarrow> bool" where
  "truthy PyNone = False"
| "truthy (PyInt i) = (i \<noteq> 0)"
| "truthy (PyStr s) = (s \<noteq> [])"

definition py_or :: "pyval \<Rightarrow> pyval \<Rightarrow> pyval" where
  "py_or a b = (if truthy a then a else b)"

definition dict_get :: "pydict \<Rightarrow> string \<Rightarrow> pyval" where
  "dict_get d k = (case map_of d k of None \<Rightarrow> PyNone | Some v \<Rightarrow> v)"

definition dict_get_default :: "pydict \<Rightarrow> string \<Rightarrow> pyval \<Rightarrow> pyval" where
  "dict_get_default d k dflt = (case map_of d k of None \<Rightarrow> dflt | Some v \<Rightarrow> v)"

text \<open>\<^verbatim>\<open>str.isspace\<close>, \<^verbatim>\<open>str.isdigit\<close> and the word characters, on ASCII.\<close>

definition is_space :: "char \<Rightarrow> bool" where
  "is_space c = (c \<in> set [CHR '' '', CHR 0x09, CHR 0x0A, CHR 0x0B, CHR 0x0C, CHR 0x0D,
                           CHR 0x1C, CHR 0x1D, CHR 0x1E, CHR 0x1F])"

definition is_digit :: "char \<Rightarrow> bool" where
  "is_digit c = (c \<in> set ''0123456789'')"

definition is_upper :: "char \<Rightarrow> bool" where
  "is_upper c = (c \<in> set ''ABCDEFGHIJKLMNOPQRSTUVWXYZ'')"

definition is_lower :: "char \<Rightarrow> bool" where
  "is_lower c = (c \<in> set ''abcdefghijklmnopqrstuvwxyz'')"

definition is_word :: "char \<Rightarrow> bool" where
  "is_word c = (is_lower c \<or> is_upper c \<or> is_digit c \<or> c = CHR ''_'')"

definition to_lower :: "char \<Rightarrow> char" where
  "to_lower c = (case map_of (zip ''ABCDEFGHIJKLMNOPQRSTUVWXYZ'' ''abcdefghijklmnopqrstuvwxyz'') c of
                   None \<Rightarrow> c | Some l \<Rightarrow> l)"

definition to_upper :: "char \<Rightarrow> char" where
  "to_upper c = (case map_of (zip ''abcdefghijklmnopqrstuvwxyz'' ''ABCDEFGHIJKLMNOPQRSTUVWXYZ'') c of
                   None \<Rightarrow> c | Some u \<Rightarrow> u)"

definition lower :: "string \<Rightarrow> string" where
  "lower s = map to_lower s"

definition strip :: "string \<Rightarrow> string" where
  "strip s = rev (dropWhile is_space (rev (dropWhile is_space s)))"


definition startswith :: "string \<Rightarrow> string \<Rightarrow> bool" where
  "startswith s p = prefix p s"

definition endswith :: "string \<Rightarrow> string \<Rightarrow> bool" where
  "endswith s p = suffix p s"

text \<open>\<^verbatim>\<open>sub in s\<close> on strings: \<open>sub\<close> is a contiguous part of \<open>s\<close>.\<close>

definition contains :: "string \<Rightarrow> string \<Rightarrow> bool" where
  "contains s sub = sublist sub s"

text \<open>\<^verbatim>\<open>int(s)\<close> on a string of ASCII digits.\<close>

definition digit_val :: "char \<Rightarrow> int" where
  "digit_val c = (case map_of (zip ''0123456789'' [0, 1, 2, 3, 4, 5, 6, 7, 8, 9]) c of
                    None \<Rightarrow> 0 | Some d \<Rightarrow> d)"

definition int_of_digits :: "string \<Rightarrow> int" where
  "int_of_digits s = foldl (\<lambda>acc c. 10 * acc + digit_val c) 0 s"

text \<open>
  \<^verbatim>\<open>"%02d" % n\<close> and its wider forms, for \<open>n \<ge> 0\<close>: the decimal digits of \<open>n\<close>,
  zero-padded on the left to the width.
\<close>

definition digit_char :: "int \<Rightarrow> char" where
  "digit_char d = ''0123456789'' ! nat (d mod 10)"

fun digits_of :: "nat \<Rightarrow> int \<Rightarrow> string" where
  "digits_of 0 n = []"
| "digits_of (Suc w) n = digits_of w (n div 10) @ [digit_char n]"

function dec_width :: "int \<Rightarrow> nat" where
  "dec_width n = (if n < 10 then 1 else Suc (dec_width (n div 10)))"
  by pat_completeness auto
termination
  by (relation "measure nat") auto

definition zero_pad :: "nat \<Rightarrow> int \<Rightarrow> string" where
  "zero_pad w n = digits_of (max w (dec_width n)) n"

text \<open>\<^verbatim>\<open>str(i)\<close> of an integer.\<close>

definition str_of_int :: "int \<Rightarrow> string" where
  "str_of_int i = (if i < 0 then CHR ''-'' # zero_pad 1 (- i) else zero_pad 1 i)"

text \<open>
  \<^verbatim>\<open>s.split(None, 2)\<close>: at most two splits at runs of white space; the third part
  is the rest of the string.
\<close>

definition split_ws2 :: "string \<Rightarrow> string list" where
  "split_ws2 s =
     (let s0 = dropWhile is_space s
      in if s0 = [] then []
         else
           (let p0 = takeWhile (\<lambda>c. \<not> is_space c) s0;
                s1 = dropWhile is_space (dropWhile (\<lambda>c. \<not> is_space c) s0)
            in if s1 = [] then [p0]
               else
                 (let p1 = takeWhile (\<lambda>c. \<not> is_space c) s1;
                      s2 = dropWhile is_space (dropWhile (\<lambda>c. \<not> is_space c) s1)
                  in if s2 = [] then [p0, p1] else [p0, p1, s2])))"

text \<open>
  The exceptions a function of the model can end in. \<open>Unmodelled\<close> is not a Python
  exception: it marks an input on which the model of a library function says nothing.
\<close>

datatype pyerror = ValueError | OverflowError | OSError | AttributeError | TypeError | Unmodelled

section \<open>The module \<^verbatim>\<open>re\<close>\<close>

text \<open>
  Regular expressions as syntax trees and a backtracking matcher. \<open>re_m r s c\<close> lists
  every way \<open>r\<close> can match a prefix of \<open>s\<close>, as the pair of the unread rest and the
  groups captured so far, in the order in which Python's backtracking engine tries
  them: the head of the list is the match \<^verbatim>\<open>re.match\<close> reports. A greedy star tries
  one more iteration first, a lazy one tries to stop first; an iteration that reads
  nothing is dropped. \<open>$\<close> matches at the end and before a final newline. The caret of
  a pattern given to \<^verbatim>\<open>re.match\<close> is implied by the anchored match and is left out
  of the tree.
\<close>

datatype citem = CChar char | CRange char char | CDigit | CSpace | CWord

fun in_citem :: "char \<Rightarrow> citem \<Rightarrow> bool" where
  "in_citem c (CChar a) = (c = a)"
| "in_citem c (CRange a b) = (a \<le> c \<and> c \<le> b)"
| "in_citem c CDigit = is_digit c"
| "in_citem c CSpace = is_space c"
| "in_citem c CWord = is_word c"

datatype 'g regex =
    Eps
  | Lit char
  | Dot
  | In "citem list"
  | NotIn "citem list"
  | Seq "'g regex" "'g regex"
  | Alt "'g regex" "'g regex"
  | Star "'g regex"
  | LazyStar "'g regex"
  | Group 'g "'g regex"
  | Eol

type_synonym 'g caps = "('g \<times> string) list"

function re_m :: "'g regex \<Rightarrow> string \<Rightarrow> 'g caps \<Rightarrow> (string \<times> 'g caps) list" where
  "re_m Eps s c = [(s, c)]"
| "re_m (Lit a) s c = (case s of [] \<Rightarrow> [] | x # xs \<Rightarrow> if x = a then [(xs, c)] else [])"
| "re_m Dot s c = (case s of [] \<Rightarrow> [] | x # xs \<Rightarrow> if x \<noteq> CHR 0x0A then [(xs, c)] else [])"
| "re_m (In cs) s c =
     (case s of [] \<Rightarrow> [] | x # xs \<Rightarrow> if list_ex (in_citem x) cs then [(xs, c)] else [])"
| "re_m (NotIn cs) s c =
     (case s of [] \<Rightarrow> [] | x # xs \<Rightarrow> if list_ex (in_citem x) cs then [] else [(xs, c)])"
| "re_m (Seq a b) s c = concat (map (\<lambda>(s', c'). re_m b s' c') (re_m a s c))"
| "re_m (Alt a b) s c = re_m a s c @ re_m b s c"
| "re_m (Star r) s c =
     concat (map (\<lambda>(s', c'). if length s' < length s then re_m (Star r) s' c' else [])
                 (re_m r s c)) @ [(s, c)]"
| "re_m (LazyStar r) s c =
     (s, c) # concat (map (\<lambda>(s', c'). if length s' < length s then re_m (LazyStar r) s' c' else [])
                          (re_m r s c))"
| "re_m (Group g r) s c =
     map (\<lambda>(s', c'). (s', (g, take (length s - length s') s) # c')) (re_m r s c)"
| "re_m Eol s c = (if s = [] \<or> s = [CHR 0x0A] then [(s, c)] else [])"
  by pat_completeness auto
termination
  by (relation "measures [\<lambda>(r, s, c). size r, \<lambda>(r, s, c). length s]") auto

text \<open>The derived forms: \<open>r+\<close>, \<open>r?\<close>, \<open>r{n}\<close>, \<open>r{lo,hi}\<close>, sequences and alternatives.\<close>

definition plus :: "'g regex \<Rightarrow> 'g regex" where
  "plus r = Seq r (Star r)"

definition opt :: "'g regex \<Rightarrow> 'g regex" where
  "opt r = Alt r Eps"

fun seqs :: "'g regex list \<Rightarrow> 'g regex" where
  "seqs [] = Eps"
| "seqs [r] = r"
| "seqs (r # rs) = Seq r (seqs rs)"

fun alts :: "'g regex list \<Rightarrow> 'g regex" where
  "alts [] = NotIn [CRange (CHR 0x00) (CHR 0xFF)]"
| "alts [r] = r"
| "alts (r # rs) = Alt r (alts rs)"

fun rep :: "nat \<Rightarrow> 'g regex \<Rightarrow> 'g regex" where
  "rep 0 r = Eps"
| "rep (Suc n) r = Seq r (rep n r)"

fun rep_upto :: "nat \<Rightarrow> 'g regex \<Rightarrow> 'g regex" where
  "rep_upto 0 r = Eps"
| "rep_upto (Suc n) r = opt (Seq r (rep_upto n r))"

definition rep_range :: "nat \<Rightarrow> nat \<Rightarrow> 'g regex \<Rightarrow> 'g regex" where
  "rep_range lo hi r = Seq (rep lo r) (rep_upto (hi - lo) r)"

definition lits :: "string \<Rightarrow> 'g regex" where
  "lits s = seqs (map Lit s)"

text \<open>A literal under \<^verbatim>\<open>re.IGNORECASE\<close>.\<close>

definition ilit :: "char \<Rightarrow> 'g regex" where
  "ilit c = (if to_lower c = to_upper c then Lit c else In [CChar (to_lower c), CChar (to_upper c)])"

definition ilits :: "string \<Rightarrow> 'g regex" where
  "ilits s = seqs (map ilit s)"

abbreviation digit :: "'g regex" where "digit \<equiv> In [CDigit]"
abbreviation space :: "'g regex" where "space \<equiv> In [CSpace]"
abbreviation nonspace :: "'g regex" where "nonspace \<equiv> NotIn [CSpace]"
abbreviation word :: "'g regex" where "word \<equiv> In [CWord]"

text \<open>
  \<^verbatim>\<open>re.match\<close> and \<^verbatim>\<open>re.search\<close>: the unread rest after the match (so that
  \<^verbatim>\<open>m.end()\<close> is where the rest starts) and the groups; \<^verbatim>\<open>m.group(g)\<close> is
  \<open>group caps g\<close>, \<^verbatim>\<open>None\<close> for a group that took no part in the match.
\<close>

definition re_match :: "'g regex \<Rightarrow> string \<Rightarrow> (string \<times> 'g caps) option" where
  "re_match r s = (case re_m r s [] of [] \<Rightarrow> None | x # _ \<Rightarrow> Some x)"

fun re_search :: "'g regex \<Rightarrow> string \<Rightarrow> (string \<times> 'g caps) option" where
  "re_search r [] = re_match r []"
| "re_search r (x # xs) =
     (case re_match r (x # xs) of None \<Rightarrow> re_search r xs | Some res \<Rightarrow> Some res)"

definition group :: "'g caps \<Rightarrow> 'g \<Rightarrow> string option" where
  "group caps g = map_of caps g"

text \<open>\<open>the_group\<close> reads a group that the pattern always sets when it matches.\<close>

definition the_group :: "'g caps \<Rightarrow> 'g \<Rightarrow> string" where
  "the_group caps g = (case map_of caps g of None \<Rightarrow> [] | Some s \<Rightarrow> s)"

section \<open>The module \<^verbatim>\<open>datetime\<close>\<close>

text \<open>
  A \<^verbatim>\<open>datetime\<close> object: the broken-down fields and the UTC offset of its
  \<^verbatim>\<open>tzinfo\<close> in microseconds (\<open>None\<close> for a naive value). \<open>datetime_new\<close> is the
  constructor with its range checks; \<open>None\<close> stands for the \<^verbatim>\<open>ValueError\<close> it raises.
\<close>

record datetime =
  dt_year :: int
  dt_month :: int
  dt_day :: int
  dt_hour :: int
  dt_minute :: int
  dt_second :: int
  dt_microsecond :: int
  dt_utcoffset :: "int option"

definition is_leap :: "int \<Rightarrow> bool" where
  "is_leap y = (y mod 4 = 0 \<and> (y mod 100 \<noteq> 0 \<or> y mod 400 = 0))"

definition days_in_month :: "int \<Rightarrow> int \<Rightarrow> int" where
  "days_in_month y m =
     (if m = 2 then (if is_leap y then 29 else 28)
      else if m = 4 \<or> m = 6 \<or> m = 9 \<or> m = 11 then 30 else 31)"

definition offset_ok :: "int option \<Rightarrow> bool" where
  "offset_ok tz = (case tz of None \<Rightarrow> True
                   | Some off \<Rightarrow> - 86400000000 < off \<and> off < 86400000000)"

definition datetime_new ::
  "int \<Rightarrow> int \<Rightarrow> int \<Rightarrow> int \<Rightarrow> int \<Rightarrow> int \<Rightarrow> int \<Rightarrow> int option \<Rightarrow> datetime option" where
  "datetime_new y mo d h mi s us tz =
     (if 1 \<le> y \<and> y \<le> 9999 \<and> 1 \<le> mo \<and> mo \<le> 12 \<and> 1 \<le> d \<and> d \<le> days_in_month y mo
         \<and> 0 \<le> h \<and> h \<le> 23 \<and> 0 \<le> mi \<and> mi \<le> 59 \<and> 0 \<le> s \<and> s \<le> 59
         \<and> 0 \<le> us \<and> us \<le> 999999 \<and> offset_ok tz
      then Some \<lparr>dt_year = y, dt_month = mo, dt_day = d, dt_hour = h, dt_minute = mi,
                 dt_second = s, dt_microsecond = us, dt_utcoffset = tz\<rparr>
      else None)"

subsection \<open>\<^verbatim>\<open>isoformat\<close> and \<^verbatim>\<open>strftime\<close>\<close>

definition format_offset :: "int \<Rightarrow> string" where
  "format_offset off =
     (let a = \<bar>off\<bar>;
          hh = a div 3600000000;
          r = a mod 3600000000;
          mm = r div 60000000;
          r2 = r mod 60000000;
          ss = r2 div 1000000;
          us = r2 mod 1000000
      in (if off < 0 then ''-'' else ''+'') @ zero_pad 2 hh @ '':'' @ zero_pad 2 mm
         @ (if r2 \<noteq> 0
            then '':'' @ zero_pad 2 ss @ (if us \<noteq> 0 then ''.'' @ zero_pad 6 us else [])
            else []))"

definition isoformat :: "datetime \<Rightarrow> string" where
  "isoformat dt =
     zero_pad 4 (dt_year dt) @ ''-'' @ zero_pad 2 (dt_month dt) @ ''-'' @ zero_pad 2 (dt_day dt)
     @ ''T'' @ zero_pad 2 (dt_hour dt) @ '':'' @ zero_pad 2 (dt_minute dt) @ '':''
     @ zero_pad 2 (dt_second dt)
     @ (if dt_microsecond dt \<noteq> 0 then ''.'' @ zero_pad 6 (dt_microsecond dt) else [])
     @ (case dt_utcoffset dt of None \<Rightarrow> [] | Some off \<Rightarrow> format_offset off)"


subsection \<open>\<^verbatim>\<open>strptime\<close>\<close>

text \<open>
  \<^verbatim>\<open>datetime.strptime\<close> as CPython's \<^verbatim>\<open>_strptime\<close> implements it (3.7 to 3.12,
  English month names): the format is turned into a regular expression, a directive
  into a named group, a run of white space into \<^verbatim>\<open>\s+\<close>, any other character into
  itself; the expression is matched ignoring case and must use up the whole input; the
  groups are converted and the result is built by the constructor. \<open>None\<close> stands for
  \<^verbatim>\<open>ValueError\<close>. The directives are those the repository's formats use.
\<close>

definition month_abbr :: "string list" where
  "month_abbr = [''jan'', ''feb'', ''mar'', ''apr'', ''may'', ''jun'',
                 ''jul'', ''aug'', ''sep'', ''oct'', ''nov'', ''dec'']"

definition directive_regex :: "char \<Rightarrow> char regex option" where
  "directive_regex d =
     (if d = CHR ''d'' then
        Some (Group d (alts [Seq (Lit CHR ''3'') (In [CRange CHR ''0'' CHR ''1'']),
                             Seq (In [CRange CHR ''1'' CHR ''2'']) digit,
                             Seq (Lit CHR ''0'') (In [CRange CHR ''1'' CHR ''9'']),
                             In [CRange CHR ''1'' CHR ''9''],
                             Seq (Lit CHR '' '') (In [CRange CHR ''1'' CHR ''9''])]))
      else if d = CHR ''f'' then Some (Group d (rep_range 1 6 (In [CRange CHR ''0'' CHR ''9''])))
      else if d = CHR ''H'' then
        Some (Group d (alts [Seq (Lit CHR ''2'') (In [CRange CHR ''0'' CHR ''3'']),
                             Seq (In [CRange CHR ''0'' CHR ''1'']) digit,
                             digit]))
      else if d = CHR ''M'' then
        Some (Group d (alts [Seq (In [CRange CHR ''0'' CHR ''5'']) digit, digit]))
      else if d = CHR ''S'' then
        Some (Group d (alts [Seq (Lit CHR ''6'') (In [CRange CHR ''0'' CHR ''1'']),
                             Seq (In [CRange CHR ''0'' CHR ''5'']) digit,
                             digit]))
      else if d = CHR ''m'' then
        Some (Group d (alts [Seq (Lit CHR ''1'') (In [CRange CHR ''0'' CHR ''2'']),
                             Seq (Lit CHR ''0'') (In [CRange CHR ''1'' CHR ''9'']),
                             In [CRange CHR ''1'' CHR ''9'']]))
      else if d = CHR ''Y'' then Some (Group d (rep 4 digit))
      else if d = CHR ''b'' then Some (Group d (alts (map ilits month_abbr)))
      else if d = CHR ''z'' then
        Some (Group d (Alt
          (seqs [In [CChar CHR ''+'', CChar CHR ''-''], digit, digit, opt (Lit CHR '':''),
                 In [CRange CHR ''0'' CHR ''5''], digit,
                 opt (seqs [opt (Lit CHR '':''), In [CRange CHR ''0'' CHR ''5''], digit,
                            opt (Seq (Lit CHR ''.'') (rep_range 1 6 digit))])])
          (Lit CHR ''Z'')))
      else if d = CHR ''%'' then Some (Lit CHR ''%'')
      else None)"

fun strptime_pattern :: "string \<Rightarrow> char regex option" where
  "strptime_pattern [] = Some Eps"
| "strptime_pattern [c] =
     (if c = CHR ''%'' then None else if is_space c then Some (plus space) else Some (ilit c))"
| "strptime_pattern (c # d # fmt) =
     (if c = CHR ''%'' then
        (case directive_regex d of
           None \<Rightarrow> None
         | Some r \<Rightarrow> map_option (Seq r) (strptime_pattern fmt))
      else if is_space c then
        (if is_space d then strptime_pattern (d # fmt)
         else map_option (Seq (plus space)) (strptime_pattern (d # fmt)))
      else map_option (Seq (ilit c)) (strptime_pattern (d # fmt)))"

text \<open>The index of a month name in \<^verbatim>\<open>a_month\<close> (January is 1).\<close>

definition month_index :: "string \<Rightarrow> int" where
  "month_index s = (case map_of (zip month_abbr [1, 2, 3, 4, 5, 6, 7, 8, 9, 10, 11, 12]) (lower s) of
                      None \<Rightarrow> 0 | Some i \<Rightarrow> i)"

definition pad_right_zeros :: "nat \<Rightarrow> string \<Rightarrow> string" where
  "pad_right_zeros n s = s @ replicate (n - length s) (CHR ''0'')"

text \<open>
  The group of \<^verbatim>\<open>%z\<close> into an offset in microseconds: \<^verbatim>\<open>Z\<close> is 0; otherwise
  the colons are taken out as \<^verbatim>\<open>_strptime\<close> does, which refuses a value that uses a
  colon in one place and not in the other.
\<close>

definition parse_z :: "string \<Rightarrow> int option" where
  "parse_z z0 =
     (if z0 = ''Z'' then Some 0
      else
        (let z1 = (if take 1 (drop 3 z0) = '':'' then
                     (let z = take 3 z0 @ drop 4 z0
                      in if length z > 5
                         then (if take 1 (drop 5 z) \<noteq> '':'' then None else Some (take 5 z @ drop 6 z))
                         else Some z)
                   else Some z0)
         in case z1 of
              None \<Rightarrow> None
            | Some z \<Rightarrow>
                (let secs = take 2 (drop 5 z)
                 in if \<not> list_all is_digit secs then None
                    else
                      (let total = (int_of_digits (take 2 (drop 1 z)) * 3600
                                    + int_of_digits (take 2 (drop 3 z)) * 60
                                    + int_of_digits secs) * 1000000
                                   + int_of_digits (pad_right_zeros 6 (drop 8 z))
                       in Some (if take 1 z = ''-'' then - total else total)))))"

definition strptime :: "string \<Rightarrow> string \<Rightarrow> datetime option" where
  "strptime data_string fmt =
     (case strptime_pattern fmt of
        None \<Rightarrow> None
      | Some r \<Rightarrow>
          (case re_match r data_string of
             None \<Rightarrow> None
           | Some (rest, found) \<Rightarrow>
               if rest \<noteq> [] then None
               else
                 (let num = (\<lambda>d dflt. case group found d of None \<Rightarrow> dflt | Some s \<Rightarrow> int_of_digits s);
                      year = num (CHR ''Y'') 1900;
                      month = (case group found (CHR ''b'') of
                                 None \<Rightarrow> num (CHR ''m'') 1
                               | Some s \<Rightarrow> month_index s);
                      day = (case group found (CHR ''d'') of
                               None \<Rightarrow> 1
                             | Some s \<Rightarrow> int_of_digits (dropWhile (\<lambda>c. c = CHR '' '') s));
                      fraction = (case group found (CHR ''f'') of
                                    None \<Rightarrow> 0
                                  | Some s \<Rightarrow> int_of_digits (pad_right_zeros 6 s))
                  in case group found (CHR ''z'') of
                       None \<Rightarrow> datetime_new year month day (num (CHR ''H'') 0) (num (CHR ''M'') 0)
                                 (num (CHR ''S'') 0) fraction None
                     | Some z \<Rightarrow>
                         (case parse_z z of
                            None \<Rightarrow> None
                          | Some off \<Rightarrow> datetime_new year month day (num (CHR ''H'') 0)
                                 (num (CHR ''M'') 0) (num (CHR ''S'') 0) fraction (Some off)))))"

subsection \<open>\<^verbatim>\<open>fromisoformat\<close>\<close>

text \<open>
  \<^verbatim>\<open>datetime.fromisoformat\<close> as documented for Python 3.7 to 3.10: it reads
  \<^verbatim>\<open>YYYY-MM-DD[*HH[:MM[:SS[.fff[fff]]]][+HH:MM[:SS[.ffffff]]]]\<close>, where \<^verbatim>\<open>*\<close> is any
  single character, and raises \<^verbatim>\<open>ValueError\<close> (\<open>None\<close>) on anything else.
\<close>

definition iso_regex :: "nat regex" where
  "iso_regex =
     seqs [Group 1 (rep 4 digit), Lit CHR ''-'', Group 2 (rep 2 digit), Lit CHR ''-'',
           Group 3 (rep 2 digit),
           opt (seqs [In [CRange (CHR 0x00) (CHR 0xFF)],
                      Group 4 (rep 2 digit),
                      opt (seqs [Lit CHR '':'', Group 5 (rep 2 digit),
                        opt (seqs [Lit CHR '':'', Group 6 (rep 2 digit),
                          opt (Seq (Lit CHR ''.'') (Group 7 (Alt (rep 6 digit) (rep 3 digit))))])]),
                      opt (seqs [Group 8 (In [CChar CHR ''+'', CChar CHR ''-'']),
                        Group 9 (rep 2 digit), Lit CHR '':'', Group 10 (rep 2 digit),
                        opt (seqs [Lit CHR '':'', Group 11 (rep 2 digit),
                          opt (Seq (Lit CHR ''.'') (Group 12 (rep 6 digit)))])])]),
           Eol]"

definition fromisoformat :: "string \<Rightarrow> datetime option" where
  "fromisoformat s =
     (if s \<noteq> [] \<and> last s = CHR 0x0A then None
      else case re_match iso_regex s of
        None \<Rightarrow> None
      | Some (rest, g) \<Rightarrow>
          (let num = (\<lambda>k. case group g k of None \<Rightarrow> 0 | Some t \<Rightarrow> int_of_digits t);
               us = (case group g 7 of None \<Rightarrow> 0 | Some t \<Rightarrow> int_of_digits (pad_right_zeros 6 t));
               tz = (case group g 8 of
                       None \<Rightarrow> None
                     | Some sign \<Rightarrow>
                         (let off = (num 9 * 3600 + num 10 * 60 + num 11) * 1000000 + num 12
                          in Some (if sign = ''-'' then - off else off)))
           in datetime_new (num 1) (num 2) (num 3) (num 4) (num 5) (num 6) us tz))"

text \<open>\<^verbatim>\<open>s.replace(old, new)\<close> for a one-character \<open>old\<close>.\<close>

definition replace_char :: "char \<Rightarrow> string \<Rightarrow> string \<Rightarrow> string" where
  "replace_char old new s = concat (map (\<lambda>c. if c = old then new else [c]) s)"

subsection \<open>Adding and subtracting seconds\<close>

text \<open>
  \<^verbatim>\<open>dt + timedelta(seconds=n)\<close> through the proleptic Gregorian ordinal, as
  \<^verbatim>\<open>datetime.__add__\<close> computes it, and \<^verbatim>\<open>dt - timedelta(seconds=n)\<close> for
  \<open>n \<ge> 0\<close>. \<open>None\<close> stands for the \<^verbatim>\<open>OverflowError\<close> of a result outside the
  years 1 to 9999 or of a \<^verbatim>\<open>timedelta\<close> beyond 999999999 days.
\<close>

definition days_before_year :: "int \<Rightarrow> int" where
  "days_before_year year = (let y = year - 1 in y * 365 + y div 4 - y div 100 + y div 400)"

definition days_before_month_table :: "int list" where
  "days_before_month_table = [0, 0, 31, 59, 90, 120, 151, 181, 212, 243, 273, 304, 334]"

definition days_before_month :: "int \<Rightarrow> int \<Rightarrow> int" where
  "days_before_month year month =
     days_before_month_table ! nat month + (if month > 2 \<and> is_leap year then 1 else 0)"

definition ymd2ord :: "int \<Rightarrow> int \<Rightarrow> int \<Rightarrow> int" where
  "ymd2ord year month day = days_before_year year + days_before_month year month + day"

definition ord2ymd :: "int \<Rightarrow> int \<times> int \<times> int" where
  "ord2ymd ordinal =
     (let n0 = ordinal - 1;
          n400 = n0 div 146097; n1r = n0 mod 146097;
          n100 = n1r div 36524; n2r = n1r mod 36524;
          n4 = n2r div 1461; n3r = n2r mod 1461;
          n1 = n3r div 365; n = n3r mod 365;
          year = n400 * 400 + 1 + n100 * 100 + n4 * 4 + n1
      in if n1 = 4 \<or> n100 = 4 then (year - 1, 12, 31)
         else
           (let leapyear = (n1 = 3 \<and> (n4 \<noteq> 24 \<or> n100 = 3));
                month0 = (n + 50) div 32;
                preceding0 = days_before_month_table ! nat month0 + (if month0 > 2 \<and> leapyear then 1 else 0);
                month = (if preceding0 > n then month0 - 1 else month0);
                preceding = (if preceding0 > n
                             then preceding0 - ((if month = 2 \<and> leapyear then 29
                                                 else days_in_month 1 month))
                             else preceding0)
            in (year, month, n - preceding + 1)))"

definition add_seconds :: "datetime \<Rightarrow> int \<Rightarrow> datetime option" where
  "add_seconds dt n =
     (let total = ymd2ord (dt_year dt) (dt_month dt) (dt_day dt) * 86400
                  + (dt_hour dt * 3600 + dt_minute dt * 60 + dt_second dt) + n;
          days = total div 86400;
          secs = total mod 86400
      in if 0 < days \<and> days \<le> 3652059
         then (case ord2ymd days of
                 (y, mo, d) \<Rightarrow>
                   Some (dt\<lparr>dt_year := y, dt_month := mo, dt_day := d, dt_hour := secs div 3600,
                            dt_minute := (secs mod 3600) div 60, dt_second := secs mod 60\<rparr>))
         else None)"

definition minus_seconds :: "datetime \<Rightarrow> int \<Rightarrow> datetime option" where
  "minus_seconds dt n = (if n div 86400 > 999999999 then None else add_seconds dt (- n))"

section \<open>The parsers\<close>

text \<open>
  A parser returns \<open>None\<close> or the dictionary of the fields it extracted. The parsers of
  lines without a year read the current year from the clock
  (\<^verbatim>\<open>datetime.now().year\<close>); it is the parameter \<open>year\<close>.
\<close>

subsection \<open>AccessParser\<close>

text \<open>
  \<^verbatim>\<open>PATTERN\<close>, \<^verbatim>\<open>SIMPLE_PATTERN\<close> and the lenient pattern of the fallback:
  \<^verbatim>\<open>^(\S+)\s+(\S+)\s+(\S+)\s+\[([^\]]+)\]\s+"(\w+)\s+([^\s"]+)(?:\s+[^"]+)?"\s+(\d{3})\s+(\d+|-)$\<close>,
  \<^verbatim>\<open>^(\S+)\s+-\s+-\s+\[([^\]]+)\]\s+"(\w+)\s+([^\s"]+)(?:\s+[^"]+)?"\s+(\d{3})\s+(\d+|-)$\<close>,
  \<^verbatim>\<open>^(\S+).*?\[([^\]]+)\].*?"(\w+)\s+([^\s"]+).*?"\s+(\d{3})\<close>.
\<close>

definition request_tail :: "nat regex list" where
  "request_tail =
     [opt (Seq (plus space) (plus (NotIn [CChar (CHR 0x22)]))), Lit (CHR 0x22), plus space]"

definition ACCESS_PATTERN :: "nat regex" where
  "ACCESS_PATTERN =
     seqs ([Group 1 (plus nonspace), plus space, Group 2 (plus nonspace), plus space,
            Group 3 (plus nonspace), plus space,
            Lit CHR ''['', Group 4 (plus (NotIn [CChar CHR '']''])), Lit CHR '']'', plus space,
            Lit (CHR 0x22), Group 5 (plus word), plus space,
            Group 6 (plus (NotIn [CSpace, CChar (CHR 0x22)]))]
           @ request_tail
           @ [Group 7 (rep 3 digit), plus space, Group 8 (Alt (plus digit) (Lit CHR ''-'')), Eol])"

definition ACCESS_SIMPLE_PATTERN :: "nat regex" where
  "ACCESS_SIMPLE_PATTERN =
     seqs ([Group 1 (plus nonspace), plus space, Lit CHR ''-'', plus space, Lit CHR ''-'', plus space,
            Lit CHR ''['', Group 2 (plus (NotIn [CChar CHR '']''])), Lit CHR '']'', plus space,
            Lit (CHR 0x22), Group 3 (plus word), plus space,
            Group 4 (plus (NotIn [CSpace, CChar (CHR 0x22)]))]
           @ request_tail
           @ [Group 5 (rep 3 digit), plus space, Group 6 (Alt (plus digit) (Lit CHR ''-'')), Eol])"

definition access_lenient_pattern :: "nat regex" where
  "access_lenient_pattern =
     seqs [Group 1 (plus nonspace), LazyStar Dot,
           Lit CHR ''['', Group 2 (plus (NotIn [CChar CHR '']''])), Lit CHR '']'', LazyStar Dot,
           Lit (CHR 0x22), Group 3 (plus word), plus space,
           Group 4 (plus (NotIn [CSpace, CChar (CHR 0x22)])), LazyStar Dot,
           Lit (CHR 0x22), plus space, Group 5 (rep 3 digit)]"

text \<open>\<^verbatim>\<open>AccessParser._parse_timestamp\<close>: the first format that parses wins; if none
  does, the raw text is returned.\<close>

definition access_timestamp_formats :: "string list" where
  "access_timestamp_formats = [''%d/%b/%Y:%H:%M:%S %z'', ''%d/%b/%Y:%H:%M:%S'', ''%Y-%m-%d %H:%M:%S'']"

fun try_formats :: "string \<Rightarrow> string list \<Rightarrow> datetime option" where
  "try_formats data [] = None"
| "try_formats data (fmt # fmts) =
     (case strptime data fmt of Some dt \<Rightarrow> Some dt | None \<Rightarrow> try_formats data fmts)"

definition access_parse_timestamp :: "string \<Rightarrow> string" where
  "access_parse_timestamp raw_ts =
     (case try_formats raw_ts access_timestamp_formats of
        Some dt \<Rightarrow> isoformat dt
      | None \<Rightarrow> raw_ts)"

definition access_record :: "string \<Rightarrow> string \<Rightarrow> string \<Rightarrow> string \<Rightarrow> string \<Rightarrow> int \<Rightarrow> pydict" where
  "access_record ts ip method endpoint status size_int =
     [(''timestamp'', PyStr ts), (''ip'', PyStr ip), (''method'', PyStr method),
      (''endpoint'', PyStr endpoint), (''status'', PyStr status), (''size'', PyInt size_int)]"

text \<open>\<^verbatim>\<open>AccessParser.parse\<close>.\<close>

definition access_parse :: "string \<Rightarrow> pydict option" where
  "access_parse line0 =
     (let line = strip line0
      in if line = [] then None
         else case re_match ACCESS_PATTERN line of
           Some (rest, g) \<Rightarrow>
             Some (access_record (access_parse_timestamp (the_group g 4)) (the_group g 1)
                     (the_group g 5) (the_group g 6) (the_group g 7)
                     (if the_group g 8 \<noteq> ''-'' then int_of_digits (the_group g 8) else 0))
         | None \<Rightarrow>
             (case re_match ACCESS_SIMPLE_PATTERN line of
                Some (rest, g) \<Rightarrow>
                  Some (access_record (access_parse_timestamp (the_group g 2)) (the_group g 1)
                          (the_group g 3) (the_group g 4) (the_group g 5)
                          (if the_group g 6 \<noteq> ''-'' then int_of_digits (the_group g 6) else 0))
              | None \<Rightarrow>
                  (case re_match access_lenient_pattern line of
                     Some (rest, g) \<Rightarrow>
                       Some (access_record (access_parse_timestamp (the_group g 2)) (the_group g 1)
                               (the_group g 3) (the_group g 4) (the_group g 5) 0)
                   | None \<Rightarrow> None)))"

subsection \<open>SyslogParser\<close>

text \<open>
  \<^verbatim>\<open>CLASSIC_PATTERN\<close> and \<^verbatim>\<open>ISO_PATTERN\<close>:
  \<^verbatim>\<open>^([A-Z][a-z]{2}\s+\d{1,2}\s+\d{2}:\d{2}:\d{2})\s+(\S+)\s+(\S+)(?:\[(\d+)\])?:\s*(.*)$\<close>,
  \<^verbatim>\<open>^(\d{4}-\d{2}-\d{2}[T ]\d{2}:\d{2}:\d{2}(?:\.\d+)?(?:[+-]\d{2}:\d{2}|Z)?)\s+(\S+)\s+(\S+)(?:\[(\d+)\])?:\s*(.*)$\<close>,
  and the two timestamp patterns of the fallbacks.
\<close>

definition classic_ts :: "nat regex" where
  "classic_ts =
     seqs [In [CRange CHR ''A'' CHR ''Z''], rep 2 (In [CRange CHR ''a'' CHR ''z'']), plus space,
           rep_range 1 2 digit, plus space,
           rep 2 digit, Lit CHR '':'', rep 2 digit, Lit CHR '':'', rep 2 digit]"

definition iso_ts :: "nat regex" where
  "iso_ts =
     seqs [rep 4 digit, Lit CHR ''-'', rep 2 digit, Lit CHR ''-'', rep 2 digit,
           In [CChar CHR ''T'', CChar CHR '' ''],
           rep 2 digit, Lit CHR '':'', rep 2 digit, Lit CHR '':'', rep 2 digit]"

definition syslog_tail :: "nat regex list" where
  "syslog_tail =
     [plus space, Group 2 (plus nonspace), plus space, Group 3 (plus nonspace),
      opt (seqs [Lit CHR ''['', Group 4 (plus digit), Lit CHR '']'']), Lit CHR '':'',
      Star space, Group 5 (Star Dot), Eol]"

definition CLASSIC_PATTERN :: "nat regex" where
  "CLASSIC_PATTERN = seqs (Group 1 classic_ts # syslog_tail)"

definition ISO_PATTERN :: "nat regex" where
  "ISO_PATTERN =
     seqs (Group 1 (seqs [iso_ts, opt (Seq (Lit CHR ''.'') (plus digit)),
                          opt (Alt (seqs [In [CChar CHR ''+'', CChar CHR ''-''], rep 2 digit,
                                          Lit CHR '':'', rep 2 digit])
                                   (Lit CHR ''Z''))])
           # syslog_tail)"

text \<open>\<^verbatim>\<open>SyslogParser._parse_iso_timestamp\<close> and
  \<^verbatim>\<open>SyslogParser._parse_classic_timestamp\<close>.\<close>

definition syslog_iso_formats :: "string list" where
  "syslog_iso_formats = [''%Y-%m-%dT%H:%M:%S'', ''%Y-%m-%d %H:%M:%S'', ''%Y-%m-%dT%H:%M:%S.%f'',
                         ''%Y-%m-%dT%H:%M:%S%z'']"

definition syslog_parse_iso_timestamp :: "string \<Rightarrow> string" where
  "syslog_parse_iso_timestamp ts_str =
     (case try_formats (take 19 ts_str) syslog_iso_formats of
        Some dt \<Rightarrow> isoformat dt
      | None \<Rightarrow> ts_str)"

definition parse_classic_timestamp :: "int \<Rightarrow> string \<Rightarrow> string" where
  "parse_classic_timestamp year ts_str =
     (case strptime (ts_str @ '' '' @ str_of_int year) ''%b %d %H:%M:%S %Y'' of
        Some dt \<Rightarrow> isoformat dt
      | None \<Rightarrow> ts_str)"

definition syslog_record :: "string \<Rightarrow> string \<Rightarrow> string \<Rightarrow> string \<Rightarrow> pydict" where
  "syslog_record ts host service message =
     [(''timestamp'', PyStr ts), (''host'', PyStr host), (''service'', PyStr service),
      (''message'', PyStr message)]"

text \<open>The fields of the two structured patterns, and those of the fallbacks, which cut
  the line at white space.\<close>

definition syslog_matched :: "string \<Rightarrow> nat caps \<Rightarrow> pydict" where
  "syslog_matched ts g =
     syslog_record ts (the_group g 2)
       (case group g 4 of
          None \<Rightarrow> the_group g 3
        | Some pid \<Rightarrow> if pid = [] then the_group g 3
                      else the_group g 3 @ ''['' @ pid @ '']'')
       (the_group g 5)"

definition syslog_fallback :: "string \<Rightarrow> string \<Rightarrow> pydict" where
  "syslog_fallback ts line =
     (let parts = split_ws2 line;
          host = (if length parts > 1 then parts ! 1 else ''unknown'');
          service = (if length parts > 2 then takeWhile (\<lambda>c. c \<noteq> CHR '':'') (parts ! 2)
                     else ''unknown'');
          message = (if length parts > 2 \<and> CHR '':'' \<in> set (parts ! 2)
                     then drop 1 (dropWhile (\<lambda>c. c \<noteq> CHR '':'') (parts ! 2)) else line)
      in syslog_record ts host service message)"

text \<open>\<^verbatim>\<open>SyslogParser.parse\<close>.\<close>

definition syslog_parse :: "int \<Rightarrow> string \<Rightarrow> pydict option" where
  "syslog_parse year line0 =
     (let line = strip line0
      in if line = [] then None
         else case re_match ISO_PATTERN line of
           Some (rest, g) \<Rightarrow> Some (syslog_matched (syslog_parse_iso_timestamp (the_group g 1)) g)
         | None \<Rightarrow>
             (case re_match CLASSIC_PATTERN line of
                Some (rest, g) \<Rightarrow>
                  Some (syslog_matched (parse_classic_timestamp year (the_group g 1)) g)
              | None \<Rightarrow>
                  (case re_match (Group (1::nat) iso_ts) line of
                     Some (rest, g) \<Rightarrow>
                       Some (syslog_fallback (syslog_parse_iso_timestamp (the_group g 1)) line)
                   | None \<Rightarrow>
                       (case re_match (Group (1::nat) classic_ts) line of
                          Some (rest, g) \<Rightarrow>
                            Some (syslog_fallback (parse_classic_timestamp year (the_group g 1)) line)
                        | None \<Rightarrow> None))))"

subsection \<open>AuthParser\<close>

definition auth_iso_formats :: "string list" where
  "auth_iso_formats = [''%Y-%m-%dT%H:%M:%S'', ''%Y-%m-%d %H:%M:%S'']"

definition auth_parse_iso_timestamp :: "string \<Rightarrow> string" where
  "auth_parse_iso_timestamp ts_str =
     (case try_formats (take 19 ts_str) auth_iso_formats of
        Some dt \<Rightarrow> isoformat dt
      | None \<Rightarrow> ts_str)"

text \<open>The searches of the parser: \<^verbatim>\<open>for\s+(\S+)\<close>, \<^verbatim>\<open>user\s+(\S+)\<close>,
  \<^verbatim>\<open>sudo:\s+(\S+)\<close>, \<^verbatim>\<open>from\s+(\d{1,3}(?:\.\d{1,3}){3})\<close> and
  \<^verbatim>\<open>(\d{1,3}(?:\.\d{1,3}){3})\<close>; each gives its group 1.\<close>

definition ipv4 :: "nat regex" where
  "ipv4 = Seq (rep_range 1 3 digit) (rep 3 (Seq (Lit CHR ''.'') (rep_range 1 3 digit)))"

definition search_group :: "nat regex \<Rightarrow> string \<Rightarrow> string option" where
  "search_group r s = (case re_search r s of None \<Rightarrow> None | Some (rest, g) \<Rightarrow> group g 1)"

definition word_after :: "string \<Rightarrow> nat regex" where
  "word_after w = seqs [lits w, plus space, Group 1 (plus nonspace)]"

definition first_some :: "'a option \<Rightarrow> 'a option \<Rightarrow> 'a option" where
  "first_some a b = (case a of Some x \<Rightarrow> Some x | None \<Rightarrow> b)"

text \<open>\<^verbatim>\<open>AuthParser.parse\<close>. The timestamp patterns match a non-empty text, so the test
  \<^verbatim>\<open>if not timestamp\<close> fails exactly when neither pattern matched.\<close>

definition auth_fields :: "string \<Rightarrow> string \<Rightarrow> pydict" where
  "auth_fields timestamp rest =
     (let from_ip = search_group (seqs [lits ''from'', plus space, Group 1 ipv4]) rest;
          (user, action, ip) =
            (if contains rest ''Accepted password'' \<or> contains rest ''Accepted publickey''
               then (search_group (word_after ''for'') rest, ''login_success'', from_ip)
             else if contains rest ''Failed password'' \<or> contains (lower rest) ''authentication failure''
               then (first_some (search_group (word_after ''for'') rest)
                                (search_group (word_after ''user'') rest),
                     ''login_failure'', from_ip)
             else if contains rest ''sudo:''
               then (search_group (word_after ''sudo:'') rest, ''sudo'', None)
             else if contains (lower rest) ''authentication''
               then (search_group (word_after ''user'') rest, ''auth_event'', None)
             else (None, ''auth_event'', None));
          ip' = (case ip of
                   Some a \<Rightarrow> if a \<noteq> [] then Some a else search_group (Group 1 ipv4) rest
                 | None \<Rightarrow> search_group (Group 1 ipv4) rest)
      in [(''timestamp'', PyStr timestamp),
          (''user'', PyStr (case user of None \<Rightarrow> ''unknown'' | Some u \<Rightarrow> if u = [] then ''unknown'' else u)),
          (''action'', PyStr action),
          (''ip'', (case ip' of None \<Rightarrow> PyNone | Some a \<Rightarrow> PyStr a))])"

definition auth_parse :: "int \<Rightarrow> string \<Rightarrow> pydict option" where
  "auth_parse year line0 =
     (let line = strip line0
      in if line = [] then None
         else case re_match (Group (1::nat) iso_ts) line of
           Some (rest, g) \<Rightarrow>
             Some (auth_fields (auth_parse_iso_timestamp (the_group g 1)) (strip rest))
         | None \<Rightarrow>
             (case re_match (Group (1::nat) classic_ts) line of
                Some (rest, g) \<Rightarrow>
                  Some (auth_fields (parse_classic_timestamp year (the_group g 1)) (strip rest))
              | None \<Rightarrow> None))"

section \<open>Indexer and LogIngester\<close>

text \<open>
  The store: the rows of the table \<^verbatim>\<open>logs\<close> in insertion order (which is the order
  of the \<^verbatim>\<open>id\<close> column) and the number of rows committed. A row is the dictionary
  of the thirteen columns \<^verbatim>\<open>add_log\<close> writes; the columns SQLite fills in itself
  (\<^verbatim>\<open>id\<close>, \<^verbatim>\<open>created_at\<close>) are left out.
\<close>

record indexer =
  idx_rows :: "pydict list"
  idx_committed :: nat

definition log_row :: "string \<Rightarrow> pydict \<Rightarrow> string \<Rightarrow> pydict" where
  "log_row log_type parsed_data raw_line =
     [(''log_type'', PyStr log_type),
      (''timestamp'', dict_get parsed_data ''timestamp''),
      (''host'', dict_get parsed_data ''host''),
      (''service'', dict_get parsed_data ''service''),
      (''message'', dict_get parsed_data ''message''),
      (''ip'', dict_get parsed_data ''ip''),
      (''method'', dict_get parsed_data ''method''),
      (''endpoint'', dict_get parsed_data ''endpoint''),
      (''status'', dict_get parsed_data ''status''),
      (''size'', dict_get_default parsed_data ''size'' (PyInt 0)),
      (''user'', dict_get parsed_data ''user''),
      (''action'', dict_get parsed_data ''action''),
      (''raw'', PyStr raw_line)]"

text \<open>\<^verbatim>\<open>Indexer.add_log\<close> and \<^verbatim>\<open>Indexer.commit\<close>.\<close>

definition add_log :: "indexer \<Rightarrow> string \<Rightarrow> pydict \<Rightarrow> string \<Rightarrow> indexer" where
  "add_log idx log_type parsed_data raw_line =
     idx\<lparr>idx_rows := idx_rows idx @ [log_row log_type parsed_data raw_line]\<rparr>"

definition commit :: "indexer \<Rightarrow> indexer" where
  "commit idx = idx\<lparr>idx_committed := length (idx_rows idx)\<rparr>"

text \<open>
  \<^verbatim>\<open>LogIngester.ingest_file\<close>. The file is the list of its lines as the iteration
  over the file object yields them (each with its line end), or \<open>None\<close> when the path
  is not a file. The state of the loop: the log type (the loop assigns it in its last
  branch), the batch, the two counters and the store.
\<close>

record ingest_state =
  st_log_type :: string
  st_batch :: "(string \<times> pydict \<times> string) list"
  st_count :: nat
  st_errors :: nat
  st_indexer :: indexer

definition flush :: "(string \<times> pydict \<times> string) list \<Rightarrow> indexer \<Rightarrow> indexer" where
  "flush batch idx = commit (fold (\<lambda>(lt, pd, rl) i. add_log i lt pd rl) batch idx)"

text \<open>The branches of the loop that choose the parser: one parser for a file of a
  known type, and all three in turn (syslog, access, auth) for any other type.\<close>

definition parse_typed :: "int \<Rightarrow> string \<Rightarrow> string \<Rightarrow> pydict option" where
  "parse_typed year log_type line =
     (if log_type = ''syslog'' then syslog_parse year line
      else if log_type = ''access'' then access_parse line
      else auth_parse year line)"

definition is_truthy_dict :: "pydict option \<Rightarrow> bool" where
  "is_truthy_dict parsed = (case parsed of None \<Rightarrow> False | Some d \<Rightarrow> d \<noteq> [])"

definition parse_any :: "int \<Rightarrow> string \<Rightarrow> string \<Rightarrow> pydict option \<times> string" where
  "parse_any year log_type line =
     (let p1 = syslog_parse year line
      in if is_truthy_dict p1 then (p1, ''syslog'')
         else
           (let p2 = access_parse line
            in if is_truthy_dict p2 then (p2, ''access'')
               else
                 (let p3 = auth_parse year line
                  in if is_truthy_dict p3 then (p3, ''auth'') else (p3, log_type))))"

definition ingest_line :: "int \<Rightarrow> ingest_state \<Rightarrow> string \<Rightarrow> ingest_state" where
  "ingest_line year st line0 =
     (let line = strip line0
      in if line = [] then st
         else
           (let (parsed, log_type) =
                  (if st_log_type st = ''syslog'' \<or> st_log_type st = ''access''
                      \<or> st_log_type st = ''auth''
                   then (parse_typed year (st_log_type st) line, st_log_type st)
                   else parse_any year (st_log_type st) line)
            in case parsed of
                 None \<Rightarrow> st\<lparr>st_log_type := log_type, st_errors := st_errors st + 1\<rparr>
               | Some pd \<Rightarrow>
                   if pd = [] then st\<lparr>st_log_type := log_type, st_errors := st_errors st + 1\<rparr>
                   else
                     (let batch = st_batch st @ [(log_type, pd, line)]
                      in if length batch \<ge> 100
                         then st\<lparr>st_log_type := log_type, st_batch := [],
                                 st_count := st_count st + 1,
                                 st_indexer := flush batch (st_indexer st)\<rparr>
                         else st\<lparr>st_log_type := log_type, st_batch := batch,
                                 st_count := st_count st + 1\<rparr>)))"

text \<open>\<^verbatim>\<open>LogIngester._detect_log_type\<close>: the first of the first five lines that a
  parser accepts decides, trying access, auth and syslog in this order.\<close>

fun detect_lines :: "int \<Rightarrow> string list \<Rightarrow> string" where
  "detect_lines year [] = ''syslog''"
| "detect_lines year (line0 # lines) =
     (let line = strip line0
      in if line = [] then detect_lines year lines
         else if is_truthy_dict (access_parse line) then ''access''
         else if is_truthy_dict (auth_parse year line) then ''auth''
         else if is_truthy_dict (syslog_parse year line) then ''syslog''
         else detect_lines year lines)"

definition detect_log_type :: "int \<Rightarrow> string list \<Rightarrow> string" where
  "detect_log_type year lines = detect_lines year (take 5 lines)"

definition basename :: "string \<Rightarrow> string" where
  "basename path = rev (takeWhile (\<lambda>c. c \<noteq> CHR ''/'') (rev path))"

text \<open>The type the loop starts with: the caller's, or the one read from the file name,
  or the detected one.\<close>

definition file_log_type :: "int \<Rightarrow> string \<Rightarrow> string option \<Rightarrow> string list \<Rightarrow> string" where
  "file_log_type year filepath log_type lines =
     (case (case log_type of None \<Rightarrow> None | Some t \<Rightarrow> if t = [] then None else Some t) of
        Some t \<Rightarrow> t
      | None \<Rightarrow>
          (let filename = lower (basename filepath)
           in if contains filename ''access'' \<or> contains filename ''nginx''
                 \<or> contains filename ''apache'' then ''access''
              else if contains filename ''auth'' \<or> contains filename ''secure'' then ''auth''
              else if contains filename ''syslog'' \<or> contains filename ''messages'' then ''syslog''
              else detect_log_type year lines))"

definition ingest_file ::
  "int \<Rightarrow> string \<Rightarrow> string option \<Rightarrow> string list option \<Rightarrow> indexer \<Rightarrow> string \<times> indexer" where
  "ingest_file year filepath log_type file idx =
     (case file of
        None \<Rightarrow> (''Error: File '' @ [CHR 0x27] @ filepath @ [CHR 0x27] @ '' not found.'', idx)
      | Some lines \<Rightarrow>
          (let st = foldl (ingest_line year)
                      \<lparr>st_log_type = file_log_type year filepath log_type lines, st_batch = [],
                       st_count = 0, st_errors = 0, st_indexer = idx\<rparr> lines;
               idx' = (if st_batch st \<noteq> [] then flush (st_batch st) (st_indexer st)
                       else st_indexer st)
           in (''Ingested '' @ str_of_int (int (st_count st)) @ '' events from '' @ filepath
               @ '' ('' @ st_log_type st @ '' format)''
               @ (if st_errors st > 0 then '' ('' @ str_of_int (int (st_errors st)) @ '' errors)''
                  else []),
               idx')))"

text \<open>The rows the loop has produced so far: those in the store and those waiting in
  the batch.\<close>

definition produced :: "ingest_state \<Rightarrow> pydict list" where
  "produced st = idx_rows (st_indexer st) @ map (\<lambda>(lt, pd, rl). log_row lt pd rl) (st_batch st)"

subsection \<open>Example lines\<close>

definition web_access_line :: string where
  "web_access_line = ''192.168.1.1 - - [13/Feb/2025:11:22:33 +0000] '' @ [CHR 0x22]
                     @ ''GET /api/users HTTP/1.1'' @ [CHR 0x22] @ '' 200 1234''"


definition empty_indexer :: indexer where
  "empty_indexer = \<lparr>idx_rows = [], idx_committed = 0\<rparr>"

section \<open>The modules \<^verbatim>\<open>json\<close> and \<^verbatim>\<open>xml.etree.ElementTree\<close>\<close>

subsection \<open>\<^verbatim>\<open>json.loads\<close>\<close>

text \<open>
  The values \<^verbatim>\<open>json.loads\<close> builds. A float is kept as the decimal
  \<open>m * 10 ^ e\<close> of its literal, \<open>JFloat m e\<close>; an object keeps its pairs in the order
  of the text, and \<open>obj_get\<close> reads the last pair of a key, as the dictionary built from
  the pairs does.
\<close>

datatype json =
    JNull
  | JBool bool
  | JInt int
  | JFloat int int
  | JNaN
  | JInf bool
  | JStr string
  | JArr "json list"
  | JObj "(string \<times> json) list"

text \<open>
  Truthiness. A float is false when it is zero, which a literal is when its digits are
  all zero or when it is so small that it rounds to zero (at most \<open>2 ^ -1075\<close>).
\<close>

fun json_truthy :: "json \<Rightarrow> bool" where
  "json_truthy JNull = False"
| "json_truthy (JBool b) = b"
| "json_truthy (JInt i) = (i \<noteq> 0)"
| "json_truthy (JFloat m e) = (m \<noteq> 0 \<and> \<not> (e < 0 \<and> \<bar>m\<bar> * 2 ^ 1075 \<le> 10 ^ nat (- e)))"
| "json_truthy JNaN = True"
| "json_truthy (JInf neg) = True"
| "json_truthy (JStr s) = (s \<noteq> [])"
| "json_truthy (JArr xs) = (xs \<noteq> [])"
| "json_truthy (JObj kvs) = (kvs \<noteq> [])"

definition json_or :: "json \<Rightarrow> json \<Rightarrow> json" where
  "json_or a b = (if json_truthy a then a else b)"

definition obj_get :: "(string \<times> json) list \<Rightarrow> string \<Rightarrow> json" where
  "obj_get kvs k = (case map_of (rev kvs) k of None \<Rightarrow> JNull | Some v \<Rightarrow> v)"

text \<open>
  The decoder, as \<^verbatim>\<open>json.decoder\<close> and \<^verbatim>\<open>json.scanner\<close> read a document in
  strict mode: white space is space, tab, line feed and carriage return; a string may
  not hold a control character and knows the escapes of JSON; \<^verbatim>\<open>NaN\<close>,
  \<^verbatim>\<open>Infinity\<close> and \<^verbatim>\<open>-Infinity\<close> are accepted. Each function returns the value
  and the unread rest, \<open>None\<close> where the decoder raises \<^verbatim>\<open>JSONDecodeError\<close>. An
  escape \<^verbatim>\<open>\uXXXX\<close> above 255 is stood for by a question mark.
\<close>

definition skip_ws :: "string \<Rightarrow> string" where
  "skip_ws s = dropWhile (\<lambda>c. c \<in> set [CHR '' '', CHR 0x09, CHR 0x0A, CHR 0x0D]) s"

definition is_hex :: "char \<Rightarrow> bool" where
  "is_hex c = (c \<in> set ''0123456789abcdefABCDEF'')"

definition hex_val :: "char \<Rightarrow> nat" where
  "hex_val c = (case map_of (zip ''0123456789abcdefABCDEF''
                              [0, 1, 2, 3, 4, 5, 6, 7, 8, 9, 10, 11, 12, 13, 14, 15, 10, 11, 12, 13, 14, 15]) c of
                 None \<Rightarrow> 0 | Some v \<Rightarrow> v)"

definition unicode_char :: "string \<Rightarrow> char" where
  "unicode_char hex4 =
     (let n = foldl (\<lambda>acc c. 16 * acc + hex_val c) 0 hex4
      in if n < 256 then char_of n else CHR ''?'')"

definition json_escape :: "char \<Rightarrow> char option" where
  "json_escape e =
     map_of [(CHR 0x22, CHR 0x22), (CHR 0x5C, CHR 0x5C), (CHR ''/'', CHR ''/''),
             (CHR ''b'', CHR 0x08), (CHR ''f'', CHR 0x0C), (CHR ''n'', CHR 0x0A),
             (CHR ''r'', CHR 0x0D), (CHR ''t'', CHR 0x09)] e"

definition is_control :: "char \<Rightarrow> bool" where
  "is_control c = (c < CHR 0x20)"

text \<open>The text of a string after its opening quote.\<close>

function json_string :: "string \<Rightarrow> (string \<times> string) option" where
  "json_string s =
     (case s of
        [] \<Rightarrow> None
      | c # cs \<Rightarrow>
          if c = CHR 0x22 then Some ([], cs)
          else if c = CHR 0x5C then
            (case cs of
               [] \<Rightarrow> None
             | e # es \<Rightarrow>
                 if e = CHR ''u'' then
                   (if length es \<ge> 4 \<and> list_all is_hex (take 4 es)
                    then map_option (\<lambda>(t, r). (unicode_char (take 4 es) # t, r))
                           (json_string (drop 4 es))
                    else None)
                 else (case json_escape e of
                         None \<Rightarrow> None
                       | Some ch \<Rightarrow> map_option (\<lambda>(t, r). (ch # t, r)) (json_string es)))
          else if is_control c then None
          else map_option (\<lambda>(t, r). (c # t, r)) (json_string cs))"
  by pat_completeness auto
termination
  by (relation "measure length") auto

text \<open>\<^verbatim>\<open>NUMBER_RE\<close>: \<^verbatim>\<open>(-?(?:0|[1-9]\d*))(\.\d+)?([eE][-+]?\d+)?\<close>.\<close>

definition NUMBER_RE :: "nat regex" where
  "NUMBER_RE =
     seqs [Group 1 (Seq (opt (Lit CHR ''-''))
                        (Alt (Lit CHR ''0'') (Seq (In [CRange CHR ''1'' CHR ''9'']) (Star digit)))),
           opt (Seq (Lit CHR ''.'') (Group 2 (plus digit))),
           opt (seqs [In [CChar CHR ''e'', CChar CHR ''E''],
                      Group 3 (Seq (opt (In [CChar CHR ''-'', CChar CHR ''+''])) (plus digit))])]"

definition signed_digits :: "string \<Rightarrow> int" where
  "signed_digits s =
     (if take 1 s = ''-'' then - int_of_digits (drop 1 s)
      else if take 1 s = ''+'' then int_of_digits (drop 1 s)
      else int_of_digits s)"

definition json_number :: "string \<Rightarrow> (json \<times> string) option" where
  "json_number s =
     (case re_match NUMBER_RE s of
        None \<Rightarrow> None
      | Some (rest, g) \<Rightarrow>
          (case (group g 2, group g 3) of
             (None, None) \<Rightarrow> Some (JInt (signed_digits (the_group g 1)), rest)
           | (frac, ex) \<Rightarrow>
               (let f = (case frac of None \<Rightarrow> [] | Some d \<Rightarrow> d);
                    x = (case ex of None \<Rightarrow> 0 | Some d \<Rightarrow> signed_digits d)
                in Some (JFloat (signed_digits (the_group g 1 @ f)) (x - int (length f)), rest))))"

function json_value :: "string \<Rightarrow> (json \<times> string) option"
  and json_members :: "string \<Rightarrow> (string \<times> json) list \<Rightarrow> (json \<times> string) option"
  and json_elements :: "string \<Rightarrow> json list \<Rightarrow> (json \<times> string) option"
where
  "json_value s =
     (case s of
        [] \<Rightarrow> None
      | c # cs \<Rightarrow>
          if c = CHR 0x22 then map_option (\<lambda>(t, r). (JStr t, r)) (json_string cs)
          else if c = CHR ''{'' then
            (if startswith (skip_ws cs) ''}'' then Some (JObj [], drop 1 (skip_ws cs))
             else if length (skip_ws cs) < length s then json_members (skip_ws cs) [] else None)
          else if c = CHR ''['' then
            (if startswith (skip_ws cs) '']'' then Some (JArr [], drop 1 (skip_ws cs))
             else if length (skip_ws cs) < length s then json_elements (skip_ws cs) [] else None)
          else if startswith s ''null'' then Some (JNull, drop 4 s)
          else if startswith s ''true'' then Some (JBool True, drop 4 s)
          else if startswith s ''false'' then Some (JBool False, drop 5 s)
          else (case json_number s of
                  Some x \<Rightarrow> Some x
                | None \<Rightarrow>
                    if startswith s ''NaN'' then Some (JNaN, drop 3 s)
                    else if startswith s ''Infinity'' then Some (JInf False, drop 8 s)
                    else if startswith s ''-Infinity'' then Some (JInf True, drop 9 s)
                    else None))"
| "json_members s acc =
     (case s of
        [] \<Rightarrow> None
      | c # cs \<Rightarrow>
          if c \<noteq> CHR 0x22 then None
          else
            (case json_string cs of
               None \<Rightarrow> None
             | Some (key, r1) \<Rightarrow>
                 (case skip_ws r1 of
                    [] \<Rightarrow> None
                  | c2 # r2 \<Rightarrow>
                      if c2 \<noteq> CHR '':'' \<or> \<not> length (skip_ws r2) < length s then None
                      else
                        (case json_value (skip_ws r2) of
                           None \<Rightarrow> None
                         | Some (v, r4) \<Rightarrow>
                             (case skip_ws r4 of
                                [] \<Rightarrow> None
                              | c5 # r5 \<Rightarrow>
                                  if c5 = CHR ''}'' then Some (JObj (acc @ [(key, v)]), r5)
                                  else if c5 = CHR '','' \<and> length (skip_ws r5) < length s
                                    then json_members (skip_ws r5) (acc @ [(key, v)])
                                  else None)))))"
| "json_elements s acc =
     (case json_value s of
        None \<Rightarrow> None
      | Some (v, r1) \<Rightarrow>
          (case skip_ws r1 of
             [] \<Rightarrow> None
           | c # r2 \<Rightarrow>
               if c = CHR '']'' then Some (JArr (acc @ [v]), r2)
               else if c = CHR '','' \<and> length (skip_ws r2) < length s
                 then json_elements (skip_ws r2) (acc @ [v])
               else None))"
  by pat_completeness auto
termination
  by (relation "measure (\<lambda>x. case x of
                           Inl s \<Rightarrow> 2 * length s
                         | Inr (Inl (s, acc)) \<Rightarrow> 2 * length s + 1
                         | Inr (Inr (s, acc)) \<Rightarrow> 2 * length s + 1)") auto

definition json_loads :: "string \<Rightarrow> json option" where
  "json_loads s =
     (case json_value (skip_ws s) of
        None \<Rightarrow> None
      | Some (v, rest) \<Rightarrow> if skip_ws rest = [] then Some v else None)"

subsection \<open>\<^verbatim>\<open>ElementTree.fromstring\<close>\<close>

text \<open>
  An element: tag, attributes, the text before its first child, and children.
  \<open>xml_subset\<close> reads the documents made of printable ASCII that consist of one element
  with nested elements, attributes in quotes and character data, with no namespace
  declaration, prefix, entity or character reference, comment, processing instruction,
  CDATA section or declaration; on these documents ElementTree builds the tree given
  here. \<open>fromstring\<close> is ElementTree's parser on them. Of any other input it only says
  that a text which does not end with \<^verbatim>\<open>>\<close> is not well formed (\<open>Inr None\<close>, the
  \<^verbatim>\<open>ParseError\<close>), since every XML document ends with the \<^verbatim>\<open>>\<close> of a tag,
  comment or processing instruction; the rest is \<open>Inl Unmodelled\<close>.
\<close>

datatype xml = Element string "(string \<times> string) list" "string option" "xml list"

fun xml_tag :: "xml \<Rightarrow> string" where
  "xml_tag (Element tag attrib txt children) = tag"

fun xml_attrib :: "xml \<Rightarrow> (string \<times> string) list" where
  "xml_attrib (Element tag attrib txt children) = attrib"

fun xml_text :: "xml \<Rightarrow> string option" where
  "xml_text (Element tag attrib txt children) = txt"

fun xml_children :: "xml \<Rightarrow> xml list" where
  "xml_children (Element tag attrib txt children) = children"

text \<open>\<^verbatim>\<open>element.find(tag)\<close>: the first child with the tag.\<close>

definition xml_find :: "xml \<Rightarrow> string \<Rightarrow> xml option" where
  "xml_find e tag = List.find (\<lambda>c. xml_tag c = tag) (xml_children e)"

definition xml_name :: "nat regex" where
  "xml_name = Seq (In [CRange CHR ''A'' CHR ''Z'', CRange CHR ''a'' CHR ''z'', CChar CHR ''_''])
                  (Star (In [CWord, CChar CHR ''-'', CChar CHR ''.'']))"

definition xml_value_char :: "char list \<Rightarrow> nat regex" where
  "xml_value_char q = NotIn (map CChar (''<&'' @ q))"

definition xml_attribute :: "nat regex" where
  "xml_attribute =
     seqs [plus (Lit CHR '' ''), Group 1 xml_name, Star (Lit CHR '' ''), Lit CHR ''='',
           Star (Lit CHR '' ''),
           Alt (seqs [Lit (CHR 0x22), Group 2 (Star (xml_value_char [CHR 0x22])), Lit (CHR 0x22)])
               (seqs [Lit (CHR 0x27), Group 2 (Star (xml_value_char [CHR 0x27])), Lit (CHR 0x27)])]"

text \<open>The attributes of a start tag, up to its closing \<^verbatim>\<open>>\<close> or \<^verbatim>\<open>/>\<close>.\<close>

function xml_attributes ::
  "string \<Rightarrow> (string \<times> string) list \<Rightarrow> ((string \<times> string) list \<times> string) option" where
  "xml_attributes s acc =
     (case re_match xml_attribute s of
        None \<Rightarrow> Some (acc, dropWhile (\<lambda>c. c = CHR '' '') s)
      | Some (rest, g) \<Rightarrow>
          if length rest < length s \<and> the_group g 1 \<noteq> ''xmlns''
             \<and> the_group g 1 \<notin> set (map fst acc)
          then xml_attributes rest (acc @ [(the_group g 1, the_group g 2)])
          else None)"
  by pat_completeness auto
termination
  by (relation "measure (\<lambda>(s, acc). length s)") auto

definition is_chardata :: "char \<Rightarrow> bool" where
  "is_chardata c = (c \<notin> set ''<&>'')"

function xml_element :: "string \<Rightarrow> (xml \<times> string) option"
  and xml_content :: "string \<Rightarrow> xml list \<Rightarrow> (xml list \<times> string) option"
where
  "xml_element s =
     (case re_match (Seq (Lit CHR ''<'') (Group 1 xml_name)) s of
        None \<Rightarrow> None
      | Some (r0, g) \<Rightarrow>
          (case xml_attributes r0 [] of
             None \<Rightarrow> None
           | Some (attrib, r1) \<Rightarrow>
               if startswith r1 ''/>'' then Some (Element (the_group g 1) attrib None [], drop 2 r1)
               else if \<not> startswith r1 ''>'' then None
               else if \<not> length (dropWhile is_chardata (drop 1 r1)) < length s then None
               else
                 (case xml_content (dropWhile is_chardata (drop 1 r1)) [] of
                    None \<Rightarrow> None
                  | Some (children, r2) \<Rightarrow>
                      (case re_match (seqs [lits ''</'', lits (the_group g 1), Star (Lit CHR '' ''),
                                            Lit CHR ''>''] :: nat regex) r2 of
                         None \<Rightarrow> None
                       | Some (r3, g3) \<Rightarrow>
                           Some (Element (the_group g 1) attrib
                                   (if takeWhile is_chardata (drop 1 r1) = [] then None
                                    else Some (takeWhile is_chardata (drop 1 r1)))
                                   children, r3)))))"
| "xml_content s acc =
     (if startswith s ''</'' then Some (acc, s)
      else case xml_element s of
        None \<Rightarrow> None
      | Some (e, r) \<Rightarrow>
          if length (dropWhile is_chardata r) < length s
          then xml_content (dropWhile is_chardata r) (acc @ [e])
          else None)"
  by pat_completeness auto
termination
  by (relation "measure (\<lambda>x. case x of Inl s \<Rightarrow> 2 * length s
                                   | Inr (s, acc) \<Rightarrow> 2 * length s + 1)") auto

definition is_printable :: "char \<Rightarrow> bool" where
  "is_printable c = (CHR 0x20 \<le> c \<and> c \<le> CHR 0x7E)"

definition xml_subset :: "string \<Rightarrow> xml option" where
  "xml_subset s =
     (if \<not> list_all is_printable s then None
      else case xml_element s of
        None \<Rightarrow> None
      | Some (e, rest) \<Rightarrow> if list_all (\<lambda>c. c = CHR '' '') rest then Some e else None)"

definition fromstring :: "string \<Rightarrow> pyerror + xml option" where
  "fromstring s =
     (case xml_subset s of
        Some e \<Rightarrow> Inr (Some e)
      | None \<Rightarrow> if endswith (strip s) ''>'' then Inl Unmodelled else Inr None)"

section \<open>CoreSightEngine: the universal parser\<close>

text \<open>
  An event is the tuple \<^verbatim>\<open>(ts, ip, user, status, event)\<close>; its components are
  values of JSON, since \<^verbatim>\<open>parse_json\<close> copies them from the decoded object
  (\<^verbatim>\<open>None\<close> is \<open>JNull\<close>). A parser returns \<open>Inr None\<close> for \<^verbatim>\<open>None\<close>,
  \<open>Inr (Some event)\<close> for an event and \<open>Inl\<close> for an exception it lets escape.
\<close>

type_synonym event = "json \<times> json \<times> json \<times> json \<times> json"

definition json_of :: "string option \<Rightarrow> json" where
  "json_of x = (case x of None \<Rightarrow> JNull | Some s \<Rightarrow> JStr s)"

subsection \<open>The probes\<close>

definition is_json :: "string \<Rightarrow> bool" where
  "is_json line = (startswith line ''{'' \<and> endswith line ''}'')"

definition is_windows_xml :: "string \<Rightarrow> bool" where
  "is_windows_xml line = startswith line ''<Event''"

text \<open>\<^verbatim>\<open>^\d{1,3}(\.\d{1,3}){3}.*?\[.*?\].*?\"\w+ .*?\" \d+\<close>,
  \<^verbatim>\<open>^\d{4}-\d{2}-\d{2}[T ]\d{2}:\<close> and
  \<^verbatim>\<open>^[A-Z][a-z]{2}\s+\d+\s+\d{2}:\d{2}:\d{2}\<close>.\<close>

definition is_nginx :: "string \<Rightarrow> bool" where
  "is_nginx line =
     (re_match (seqs [ipv4, LazyStar Dot, Lit CHR ''['', LazyStar Dot, Lit CHR '']'', LazyStar Dot,
                      Lit (CHR 0x22), plus word, Lit CHR '' '', LazyStar Dot, Lit (CHR 0x22),
                      Lit CHR '' '', plus digit]) line \<noteq> None)"

definition is_iso :: "string \<Rightarrow> bool" where
  "is_iso line =
     (re_match (seqs [rep 4 digit, Lit CHR ''-'', rep 2 digit, Lit CHR ''-'', rep 2 digit,
                      In [CChar CHR ''T'', CChar CHR '' ''], rep 2 digit, Lit CHR '':''] :: nat regex)
        line \<noteq> None)"

definition is_classic_syslog :: "string \<Rightarrow> bool" where
  "is_classic_syslog line =
     (re_match (seqs [In [CRange CHR ''A'' CHR ''Z''], rep 2 (In [CRange CHR ''a'' CHR ''z'']),
                      plus space, plus digit, plus space,
                      rep 2 digit, Lit CHR '':'', rep 2 digit, Lit CHR '':'', rep 2 digit] :: nat regex)
        line \<noteq> None)"

subsection \<open>The extractors\<close>

text \<open>\<^verbatim>\<open>extract_ip\<close>, \<^verbatim>\<open>extract_user\<close> and \<^verbatim>\<open>extract_sudo_user\<close>.\<close>

definition extract_ip :: "string \<Rightarrow> string option" where
  "extract_ip line = search_group (Group 1 ipv4) line"

definition extract_user :: "string \<Rightarrow> string option" where
  "extract_user line =
     (case search_group (word_after ''user'') line of
        Some u \<Rightarrow> Some u
      | None \<Rightarrow> search_group (word_after ''for'') line)"

definition extract_sudo_user :: "string \<Rightarrow> string option" where
  "extract_sudo_user line = search_group (word_after ''sudo:'') line"

text \<open>
  \<^verbatim>\<open>parse_json\<close>. The decoding is inside the \<^verbatim>\<open>try\<close>; the reads of the object
  are not, and \<^verbatim>\<open>obj.get("alert", {}).get("signature")\<close>, evaluated when
  \<^verbatim>\<open>event\<close> is falsy, raises \<^verbatim>\<open>AttributeError\<close> when \<^verbatim>\<open>alert\<close> is present and
  is not an object.
\<close>

definition parse_json :: "string \<Rightarrow> pyerror + event option" where
  "parse_json line =
     (case json_loads line of
        None \<Rightarrow> Inr None
      | Some (JObj obj) \<Rightarrow>
          (let ts = json_or (obj_get obj ''timestamp'')
                      (json_or (obj_get obj ''time'')
                         (json_or (obj_get obj ''@timestamp'') (JStr ''unknown'')));
               ip = json_or (obj_get obj ''ip'') (json_or (obj_get obj ''src_ip'') (obj_get obj ''source_ip''));
               user = obj_get obj ''user'';
               status = obj_get obj ''status'';
               rest_event = json_or (obj_get obj ''msg'') (JStr ''json_event'')
           in if json_truthy (obj_get obj ''event'')
              then Inr (Some (ts, ip, user, status, obj_get obj ''event''))
              else
                (case map_of (rev obj) ''alert'' of
                   None \<Rightarrow> Inr (Some (ts, ip, user, status, rest_event))
                 | Some (JObj alert) \<Rightarrow>
                     Inr (Some (ts, ip, user, status, json_or (obj_get alert ''signature'') rest_event))
                 | Some other \<Rightarrow> Inl AttributeError))
      | Some other \<Rightarrow> Inl AttributeError)"

text \<open>\<^verbatim>\<open>parse_windows_xml\<close>; \<^verbatim>\<open>system.find(...)\<close> may be \<^verbatim>\<open>None\<close>, and reading
  \<^verbatim>\<open>.attrib\<close> or \<^verbatim>\<open>.text\<close> of it raises \<^verbatim>\<open>AttributeError\<close>.\<close>

definition data_named :: "xml list \<Rightarrow> string \<Rightarrow> json \<Rightarrow> json" where
  "data_named children name start =
     fold (\<lambda>child acc. if map_of (xml_attrib child) ''Name'' = Some name
                         then json_of (xml_text child) else acc) children start"

definition parse_windows_xml :: "string \<Rightarrow> pyerror + event option" where
  "parse_windows_xml line =
     (case fromstring line of
        Inl err \<Rightarrow> Inl err
      | Inr None \<Rightarrow> Inr None
      | Inr (Some root) \<Rightarrow>
          (let data = xml_find root ''EventData'';
               ip = (case data of None \<Rightarrow> JNull
                     | Some d \<Rightarrow> data_named (xml_children d) ''IpAddress'' JNull);
               user = (case data of None \<Rightarrow> JNull
                       | Some d \<Rightarrow> data_named (xml_children d) ''SubjectUserName'' JNull)
           in case xml_find root ''System'' of
                None \<Rightarrow> Inr (Some (JStr ''unknown'', ip, user, JNull, JStr ''windows_event''))
              | Some system \<Rightarrow>
                  (case (xml_find system ''TimeCreated'', xml_find system ''EventID'') of
                     (Some tc, Some eid) \<Rightarrow>
                       Inr (Some (JStr (case map_of (xml_attrib tc) ''SystemTime'' of
                                          None \<Rightarrow> ''unknown'' | Some t \<Rightarrow> t),
                                  ip, user, JNull,
                                  JStr (case xml_text eid of
                                          None \<Rightarrow> ''windows_event''
                                        | Some event_id \<Rightarrow> ''windows_event_'' @ event_id)))
                   | _ \<Rightarrow> Inl AttributeError)))"

text \<open>\<^verbatim>\<open>parse_nginx\<close>, with the pattern
  \<^verbatim>\<open>([\d\.]+).*?\[(.*?)\].*?\".*?\" (\d{3})\<close>: a timestamp that does not parse
  becomes \<^verbatim>\<open>"unknown"\<close>.\<close>

definition nginx_pattern :: "nat regex" where
  "nginx_pattern =
     seqs [Group 1 (plus (In [CDigit, CChar CHR ''.''])), LazyStar Dot,
           Lit CHR ''['', Group 2 (LazyStar Dot), Lit CHR '']'', LazyStar Dot,
           Lit (CHR 0x22), LazyStar Dot, Lit (CHR 0x22), Lit CHR '' '', Group 3 (rep 3 digit)]"

definition parse_nginx :: "string \<Rightarrow> event option" where
  "parse_nginx line =
     (case re_match nginx_pattern line of
        None \<Rightarrow> None
      | Some (rest, g) \<Rightarrow>
          Some (JStr (case strptime (the_group g 2) ''%d/%b/%Y:%H:%M:%S %z'' of
                        Some dt \<Rightarrow> isoformat dt
                      | None \<Rightarrow> ''unknown''),
                JStr (the_group g 1), JNull, JStr (the_group g 3), JStr ''nginx_access''))"

text \<open>\<^verbatim>\<open>parse_iso_syslog\<close>, with the pattern \<^verbatim>\<open>^(\S+)\s+(\S+)\s+(.*)\<close>.\<close>

definition parse_iso_syslog :: "string \<Rightarrow> event option" where
  "parse_iso_syslog line =
     (case re_match (seqs [Group (1::nat) (plus nonspace), plus space, Group 2 (plus nonspace),
                           plus space, Group 3 (Star Dot)]) line of
        None \<Rightarrow> None
      | Some (rest, g) \<Rightarrow>
          Some (JStr (the_group g 1), json_of (extract_ip line), json_of (extract_user line),
                JNull, JStr ''syslog_iso''))"

text \<open>\<^verbatim>\<open>parse_classic_syslog\<close> and \<^verbatim>\<open>parse_generic\<close>, which always return an
  event.\<close>

definition parse_classic_syslog :: "int \<Rightarrow> string \<Rightarrow> event" where
  "parse_classic_syslog year line =
     (let ts = JStr (case strptime (take 15 line @ '' '' @ str_of_int year) ''%b %d %H:%M:%S %Y'' of
                       Some dt \<Rightarrow> isoformat dt
                     | None \<Rightarrow> ''unknown'')
      in if contains line ''Failed password''
           then (ts, json_of (extract_ip line), JNull, JNull, JStr ''failed_ssh'')
         else if contains line ''Accepted password''
           then (ts, json_of (extract_ip line), json_of (extract_user line), JNull,
                 JStr ''login_success'')
         else if contains line ''sudo:''
           then (ts, JNull, json_of (extract_sudo_user line), JNull, JStr ''sudo_event'')
         else (ts, JNull, JNull, JNull, JStr ''syslog_event''))"

definition parse_generic :: "string \<Rightarrow> event" where
  "parse_generic line = (JStr ''unknown'', json_of (extract_ip line), JNull, JNull, JStr ''generic_event'')"

subsection \<open>\<^verbatim>\<open>parse_universal\<close> and \<^verbatim>\<open>ingest_file\<close>\<close>

definition parse_universal :: "int \<Rightarrow> string \<Rightarrow> pyerror + event option" where
  "parse_universal year line =
     (if is_json line then parse_json line
      else if is_windows_xml line then parse_windows_xml line
      else if is_nginx line then Inr (parse_nginx line)
      else if is_iso line then Inr (parse_iso_syslog line)
      else if is_classic_syslog line then Inr (Some (parse_classic_syslog year line))
      else Inr (Some (parse_generic line)))"

text \<open>
  The loop of \<^verbatim>\<open>CoreSightEngine.ingest_file\<close> over the lines of the file: the events
  inserted, each with the stripped line as raw. A line whose parser returns
  \<^verbatim>\<open>None\<close> is passed over; an exception of the parser ends the ingestion.
\<close>

fun engine_ingest :: "int \<Rightarrow> string list \<Rightarrow> (event \<times> string) list \<Rightarrow> pyerror + (event \<times> string) list" where
  "engine_ingest year [] inserted = Inr inserted"
| "engine_ingest year (line0 # lines) inserted =
     (if strip line0 = [] then engine_ingest year lines inserted
      else case parse_universal year (strip line0) of
             Inl err \<Rightarrow> Inl err
           | Inr None \<Rightarrow> engine_ingest year lines inserted
           | Inr (Some parsed) \<Rightarrow> engine_ingest year lines (inserted @ [(parsed, strip line0)]))"

subsection \<open>Example lines\<close>

definition bad_date_line :: string where
  "bad_date_line = ''10.0.0.7 - - [yesterday] '' @ [CHR 0x22] @ ''GET / HTTP/1.1'' @ [CHR 0x22] @ '' 200 5''"

definition alert_line :: string where
  "alert_line = ''{'' @ [CHR 0x22] @ ''alert'' @ [CHR 0x22] @ '': 1}''"

definition json_line :: string where
  "json_line = ''{'' @ [CHR 0x22] @ ''time'' @ [CHR 0x22] @ '': '' @ [CHR 0x22]
               @ ''2025-01-01T00:00:00Z'' @ [CHR 0x22] @ '', '' @ [CHR 0x22] @ ''src_ip'' @ [CHR 0x22]
               @ '': '' @ [CHR 0x22] @ ''10.1.1.1'' @ [CHR 0x22] @ ''}''"

section \<open>QueryParser\<close>

subsection \<open>The WHERE clause\<close>

text \<open>
  \<^verbatim>\<open>QueryParser\<close> builds the WHERE clause as SQL text. The model builds the syntax
  tree of that text; \<open>render\<close> gives the text back, character by character as the
  f-strings of the source produce it. The tree stands for the text as SQLite reads it
  as long as no interpolated value contains a single quote (the source does not escape
  values).
\<close>

datatype sqlexpr = Col string | Str string | Lower sqlexpr

datatype cmpop = OpEq | OpGt | OpGe | OpLe

datatype cond =
    IsNotNull sqlexpr
  | Like sqlexpr sqlexpr
  | Cmp sqlexpr cmpop sqlexpr
  | Conj "cond list"
  | Disj "cond list"
  | Paren cond
  | TrueCond

fun join :: "string \<Rightarrow> string list \<Rightarrow> string" where
  "join sep [] = []"
| "join sep [x] = x"
| "join sep (x # y # xs) = x @ sep @ join sep (y # xs)"

fun render_expr :: "sqlexpr \<Rightarrow> string" where
  "render_expr (Col c) = c"
| "render_expr (Str s) = [CHR 0x27] @ s @ [CHR 0x27]"
| "render_expr (Lower e) = ''LOWER('' @ render_expr e @ '')''"

fun render_op :: "cmpop \<Rightarrow> string" where
  "render_op OpEq = ''=''"
| "render_op OpGt = '' > ''"
| "render_op OpGe = '' >= ''"
| "render_op OpLe = '' <= ''"

fun render :: "cond \<Rightarrow> string" where
  "render (IsNotNull e) = render_expr e @ '' IS NOT NULL''"
| "render (Like a b) = render_expr a @ '' LIKE '' @ render_expr b"
| "render (Cmp a op b) = render_expr a @ render_op op @ render_expr b"
| "render (Conj cs) = join '' AND '' (map render cs)"
| "render (Disj cs) = join '' OR '' (map render cs)"
| "render (Paren c) = ''('' @ render c @ '')''"
| "render TrueCond = ''1=1''"

subsection \<open>What SQLite computes for the clause\<close>









subsection \<open>The parser\<close>

text \<open>
  What the parser reads from its environment: the clock (\<^verbatim>\<open>datetime.utcnow()\<close>) and
  \<^verbatim>\<open>datetime.fromtimestamp\<close>, which depends on the machine's time zone. The epoch
  value is the decimal \<open>m / 10 ^ k\<close> given as the pair \<open>(m, k)\<close>; the rounding of
  Python's floats is not modelled.
\<close>

record env =
  utcnow :: datetime
  fromtimestamp :: "int \<times> nat \<Rightarrow> pyerror + datetime"




text \<open>\<^verbatim>\<open>r"last=(\d+)([mhdwM])"\<close> and \<^verbatim>\<open>r"-(\d+)([mhdwM])"\<close>.\<close>

definition unit_class :: "nat regex" where
  "unit_class = In [CChar CHR ''m'', CChar CHR ''h'', CChar CHR ''d'', CChar CHR ''w'', CChar CHR ''M'']"

definition last_regex :: "nat regex" where
  "last_regex = seqs [lits ''last='', Group 1 (plus digit), Group 2 unit_class]"

definition rel_regex :: "nat regex" where
  "rel_regex = seqs [Lit CHR ''-'', Group 1 (plus digit), Group 2 unit_class]"

text \<open>\<^verbatim>\<open>QueryParser._parse_time_filter\<close>.\<close>

definition parse_time_filter :: "env \<Rightarrow> string \<Rightarrow> pyerror + cond option" where
  "parse_time_filter e token =
     (case re_match last_regex (lower token) of
        None \<Rightarrow> Inr None
      | Some (rest, g) \<Rightarrow>
          (let num = int_of_digits (the_group g 1);
               unit = lower (the_group g 2);
               seconds = (if unit = ''m'' then Some (num * 60)
                          else if unit = ''h'' then Some (num * 3600)
                          else if unit = ''d'' then Some (num * 86400)
                          else if unit = ''w'' then Some (num * 604800)
                          else if unit = ''M'' then Some (num * 2592000)
                          else None)
           in case seconds of
                None \<Rightarrow> Inr None
              | Some secs \<Rightarrow>
                  (case minus_seconds (utcnow e) secs of
                     None \<Rightarrow> Inl OverflowError
                   | Some cutoff \<Rightarrow>
                       Inr (Some (Cmp (Col ''timestamp'') OpGt (Str (isoformat cutoff)))))))"

text \<open>
  \<^verbatim>\<open>QueryParser._parse_earliest_latest\<close>. \<open>mode_op\<close> is the comparison the mode
  selects: \<^verbatim>\<open>>=\<close> for \<^verbatim>\<open>"earliest"\<close>, \<^verbatim>\<open><=\<close> otherwise.
\<close>

definition mode_clause :: "string \<Rightarrow> string \<Rightarrow> cond" where
  "mode_clause mode iso_text =
     (if mode = ''earliest'' then Cmp (Col ''timestamp'') OpGe (Str iso_text)
      else Cmp (Col ''timestamp'') OpLe (Str iso_text))"

definition epoch_regex :: "nat regex" where
  "epoch_regex = seqs [Lit CHR ''@'', Group 1 (Seq (plus digit) (opt (Seq (Lit CHR ''.'') (plus digit))))]"

text \<open>The decimal text \<^verbatim>\<open>digits[.digits]\<close> as mantissa and number of decimals.\<close>

definition decimal_of :: "string \<Rightarrow> int \<times> nat" where
  "decimal_of s =
     (let ip = takeWhile (\<lambda>c. c \<noteq> CHR ''.'') s;
          fp = drop 1 (dropWhile (\<lambda>c. c \<noteq> CHR ''.'') s)
      in (int_of_digits (ip @ fp), length fp))"

definition absolute_date :: "string \<Rightarrow> datetime option" where
  "absolute_date time_value =
     (let dt1 = (if contains time_value ''T''
                 then fromisoformat (replace_char (CHR ''Z'') ''+00:00'' time_value) else None);
          dt2 = (case dt1 of Some d \<Rightarrow> Some d
                 | None \<Rightarrow> strptime time_value ''%Y-%m-%d %H:%M:%S'');
          dt3 = (case dt2 of Some d \<Rightarrow> Some d
                 | None \<Rightarrow> strptime time_value ''%Y-%m-%d'')
      in case dt3 of Some d \<Rightarrow> Some d
         | None \<Rightarrow> strptime time_value ''%b %d %Y %H:%M:%S'')"

definition parse_earliest_latest :: "env \<Rightarrow> string \<Rightarrow> string \<Rightarrow> pyerror + cond option" where
  "parse_earliest_latest e token mode =
     (case re_match (Seq (if mode = ''earliest'' then ilits ''earliest='' else ilits ''latest='')
                         (Group (1::nat) (plus Dot))) token of
        None \<Rightarrow> Inr None
      | Some (rest0, g0) \<Rightarrow>
          (let time_value = strip (the_group g0 1)
           in case re_match rel_regex (lower time_value) of
                Some (rest, g) \<Rightarrow>
                  (let num = int_of_digits (the_group g 1);
                       unit = lower (the_group g 2);
                       seconds = (if unit = ''m'' then Some (num * 60)
                                  else if unit = ''h'' then Some (num * 3600)
                                  else if unit = ''d'' then Some (num * 86400)
                                  else if unit = ''w'' then Some (num * 604800)
                                  else if unit = ''M'' then Some (num * 2592000)
                                  else None)
                   in case seconds of
                        None \<Rightarrow> Inr None
                      | Some secs \<Rightarrow>
                          (case minus_seconds (utcnow e) secs of
                             None \<Rightarrow> Inl OverflowError
                           | Some cutoff \<Rightarrow> Inr (Some (mode_clause mode (isoformat cutoff)))))
              | None \<Rightarrow>
                  if lower time_value = ''now''
                  then Inr (Some (mode_clause mode (isoformat (utcnow e))))
                  else
                    (let epoch = (case re_match epoch_regex time_value of
                                    None \<Rightarrow> Inr None
                                  | Some (rest, g) \<Rightarrow>
                                      (let (m, k) = decimal_of (the_group g 1);
                                           epoch_float = (if m > 10000000000 * 10 ^ k
                                                          then (m, k + 3) else (m, k))
                                       in case fromtimestamp e epoch_float of
                                            Inr dt \<Rightarrow> Inr (Some dt)
                                          | Inl err \<Rightarrow>
                                              if err = ValueError \<or> err = OSError then Inr None
                                              else Inl err))
                     in case epoch of
                          Inl err \<Rightarrow> Inl err
                        | Inr (Some dt) \<Rightarrow> Inr (Some (mode_clause mode (isoformat dt)))
                        | Inr None \<Rightarrow>
                            (case absolute_date time_value of
                               Some dt \<Rightarrow> Inr (Some (mode_clause mode (isoformat dt)))
                             | None \<Rightarrow> Inr None))))"










subsection \<open>An environment for the examples\<close>

text \<open>
  A machine whose clock reads 2025-03-01 12:00:00 UTC and whose local time zone is UTC:
  \<^verbatim>\<open>fromtimestamp\<close> rounds the epoch value to microseconds, half to even, and raises
  \<^verbatim>\<open>ValueError\<close> beyond year 9999.
\<close>

definition epoch_start :: datetime where
  "epoch_start = \<lparr>dt_year = 1970, dt_month = 1, dt_day = 1, dt_hour = 0, dt_minute = 0,
                   dt_second = 0, dt_microsecond = 0, dt_utcoffset = None\<rparr>"

definition fromtimestamp_utc :: "int \<times> nat \<Rightarrow> pyerror + datetime" where
  "fromtimestamp_utc x =
     (case x of (m, k) \<Rightarrow>
        (let num = m * 1000000; den = 10 ^ k;
             q = num div den; r = num mod den;
             us = (if 2 * r > den \<or> (2 * r = den \<and> odd q) then q + 1 else q)
         in case add_seconds epoch_start (us div 1000000) of
              None \<Rightarrow> Inl ValueError
            | Some dt \<Rightarrow> Inr (dt\<lparr>dt_microsecond := us mod 1000000\<rparr>)))"

definition example_env :: env where
  "example_env =
     \<lparr>utcnow = \<lparr>dt_year = 2025, dt_month = 3, dt_day = 1, dt_hour = 12, dt_minute = 0,
                 dt_second = 0, dt_microsecond = 0, dt_utcoffset = None\<rparr>,
      fromtimestamp = fromtimestamp_utc\<rparr>"

section \<open>QueryEngine: the stats commands\<close>

text \<open>
  The dictionaries \<^verbatim>\<open>counts\<close> and \<^verbatim>\<open>buckets\<close> are association lists in
  insertion order; \<^verbatim>\<open>d[key] = d.get(key, 0) + 1\<close> is \<open>dict_bump\<close>, which updates
  the entry of \<open>key\<close> in place or appends a new one. A result row
  \<^verbatim>\<open>{"value": k, "count": v}\<close> or \<^verbatim>\<open>{"time": k, "count": v}\<close> is the pair
  \<open>(k, v)\<close>.
\<close>

definition counts_get :: "('k \<times> nat) list \<Rightarrow> 'k \<Rightarrow> nat \<Rightarrow> nat" where
  "counts_get counts key dflt = (case map_of counts key of None \<Rightarrow> dflt | Some v \<Rightarrow> v)"

definition dict_bump :: "'k \<Rightarrow> ('k \<times> nat) list \<Rightarrow> ('k \<times> nat) list" where
  "dict_bump key counts = AList.update key (counts_get counts key 0 + 1) counts"

subsection \<open>\<^verbatim>\<open>_count_by\<close> and \<^verbatim>\<open>_top\<close>\<close>

text \<open>
  \<^verbatim>\<open>key = r.get(field) or "null"\<close> is \<open>group_key\<close>.
  \<^verbatim>\<open>sorted(..., key=lambda x: x[1], reverse=True)\<close> is CPython's stable sort on the
  reversed list, reversed again.
\<close>

type_synonym counts = "(pyval \<times> nat) list"

definition group_key :: "pydict \<Rightarrow> string \<Rightarrow> pyval" where
  "group_key r field = py_or (dict_get r field) (PyStr ''null'')"

definition count_loop :: "pydict list \<Rightarrow> string \<Rightarrow> counts" where
  "count_loop results field = fold (\<lambda>r counts. dict_bump (group_key r field) counts) results []"

definition sorted_by_count_reverse :: "counts \<Rightarrow> counts" where
  "sorted_by_count_reverse items = rev (sort_key snd (rev items))"

definition count_by :: "pydict list \<Rightarrow> string \<Rightarrow> counts" where
  "count_by results field = sorted_by_count_reverse (count_loop results field)"

definition top :: "pydict list \<Rightarrow> nat \<Rightarrow> string \<Rightarrow> counts" where
  "top results n field = take n (sorted_by_count_reverse (count_loop results field))"

subsection \<open>\<^verbatim>\<open>_time_bucket\<close>\<close>







section \<open>Properties of the stats commands\<close>







lemma count_loop_keys:
  "count_loop results field = fold dict_bump (map (\<lambda>r. group_key r field) results) []"
  by (simp add: count_loop_def fold_map comp_def)










text \<open>
  C10. \<^verbatim>\<open>count_by(field)\<close> and \<^verbatim>\<open>top(N, field)\<close> group a record under the
  sentinel \<^verbatim>\<open>"null"\<close> whenever its field value is falsy: \<^verbatim>\<open>None\<close>, the empty
  string or the integer 0. Two record sets whose field values agree up to falsy values
  get the same rows, so records with size 0 and records with no size are
  indistinguishable under \<^verbatim>\<open>count_by(size)\<close>.
\<close>

theorem falsy_values_grouped_as_null:
  "(dict_get r field \<in> {PyNone, PyStr [], PyInt 0} \<longrightarrow> group_key r field = PyStr ''null'')
   \<and> (list_all2 (\<lambda>a b. dict_get a field = dict_get b field
                       \<or> (\<not> truthy (dict_get a field) \<and> \<not> truthy (dict_get b field))) rs rs'
        \<longrightarrow> count_by rs field = count_by rs' field \<and> top rs n field = top rs' n field)"
proof -
  have a: "dict_get r field \<in> {PyNone, PyStr [], PyInt 0} \<longrightarrow> group_key r field = PyStr ''null''"
    by (auto simp: group_key_def py_or_def)
  have b: "count_loop rs field = count_loop rs' field"
    if h: "list_all2 (\<lambda>a b. dict_get a field = dict_get b field
                       \<or> (\<not> truthy (dict_get a field) \<and> \<not> truthy (dict_get b field))) rs rs'"
  proof -
    from h have "list_all2 (\<lambda>a b. group_key a field = group_key b field) rs rs'"
      by (rule list_all2_mono) (auto simp: group_key_def py_or_def)
    then have "map (\<lambda>r. group_key r field) rs = map (\<lambda>r. group_key r field) rs'"
      by (induction rule: list_all2_induct) simp_all
    then show ?thesis by (simp only: count_loop_keys)
  qed
  show ?thesis using a b by (simp add: count_by_def top_def)
qed

theorem falsy_values_grouped_as_null_witness:
  "group_key [(''size'', PyInt 0)] ''size'' = PyStr ''null''
   \<and> count_by [[(''size'', PyInt 0)], [(''size'', PyInt 1234)], [(''size'', PyNone)]] ''size''
       = [(PyStr ''null'', 2), (PyInt 1234, 1)]
   \<and> count_by [[(''size'', PyInt 0)], [(''size'', PyInt 1234)], [(''size'', PyNone)]] ''size''
       = count_by [[(''size'', PyNone)], [(''size'', PyInt 1234)], [(''size'', PyStr [])]] ''size''
   \<and> top [[(''size'', PyInt 0)], [(''size'', PyInt 1234)], [(''size'', PyNone)]] 1 ''size''
       = [(PyStr ''null'', 2)]"
  using falsy_values_grouped_as_null[of "[(''size'', PyInt 0)]" "''size''"
      "[[(''size'', PyInt 0)], [(''size'', PyInt 1234)], [(''size'', PyNone)]]"
      "[[(''size'', PyNone)], [(''size'', PyInt 1234)], [(''size'', PyStr [])]]" 1]
  by (simp add: count_by_def top_def count_loop_def dict_bump_def group_key_def py_or_def
      dict_get_def counts_get_def sorted_by_count_reverse_def)

section \<open>Properties of the query parser\<close>

lemma to_lower_idem: "to_lower (to_lower c) = to_lower c"
  by (simp add: to_lower_def)

lemma lower_lower: "lower (lower s) = lower s"
  by (simp add: lower_def to_lower_idem)

lemma parse_time_filter_lower: "parse_time_filter e (lower token) = parse_time_filter e token"
  by (simp add: parse_time_filter_def lower_lower)

text \<open>
  C2. The claim gives \<^verbatim>\<open>M\<close> the meaning of a 30-day month, distinct from \<^verbatim>\<open>m\<close>.
  The code lowers the token before it matches the unit, so the branch for \<^verbatim>\<open>M\<close> is
  never taken: on a clock reading 2025-03-01 12:00:00, \<^verbatim>\<open>last=1M\<close> gives the bound
  2025-03-01T11:59:00, the bound of \<^verbatim>\<open>last=1m\<close>, where 30 days would give
  2025-01-30T12:00:00 (as \<^verbatim>\<open>last=30d\<close> does); \<^verbatim>\<open>earliest=-1M\<close> and
  \<^verbatim>\<open>latest=-1M\<close> behave the same way.
\<close>

theorem last_1M_is_one_minute:
  "parse_time_filter example_env ''last=1M''
     = Inr (Some (Cmp (Col ''timestamp'') OpGt (Str ''2025-03-01T11:59:00'')))
   \<and> parse_time_filter example_env ''last=1m''
     = Inr (Some (Cmp (Col ''timestamp'') OpGt (Str ''2025-03-01T11:59:00'')))
   \<and> parse_time_filter example_env ''last=30d''
     = Inr (Some (Cmp (Col ''timestamp'') OpGt (Str ''2025-01-30T12:00:00'')))
   \<and> parse_earliest_latest example_env ''earliest=-1M'' ''earliest''
     = Inr (Some (Cmp (Col ''timestamp'') OpGe (Str ''2025-03-01T11:59:00'')))
   \<and> parse_earliest_latest example_env ''latest=-1M'' ''latest''
     = Inr (Some (Cmp (Col ''timestamp'') OpLe (Str ''2025-03-01T11:59:00'')))"
  by code_simp

















section \<open>Properties of ingestion\<close>











text \<open>One round of the loop adds at most one row, whose raw field is the stripped line.\<close>

lemma produced_update [simp]:
  "produced (st\<lparr>st_log_type := lt, st_errors := n\<rparr>) = produced st"
  "produced (st\<lparr>st_log_type := lt, st_batch := b, st_count := c\<rparr>)
     = idx_rows (st_indexer st) @ map (\<lambda>(lt, pd, rl). log_row lt pd rl) b"
  "produced (st\<lparr>st_log_type := lt, st_batch := [], st_count := c, st_indexer := i\<rparr>) = idx_rows i"
  by (simp_all add: produced_def)







text \<open>
  C7. The web-access line of the specification parses to ip 192.168.1.1, method GET,
  endpoint /api/users, status 200, size 1234 and the timestamp
  2025-02-13T11:22:33+00:00 (ISO 8601 with the offset of the input); ingesting a file
  that holds the line stores the row of these fields with the line as raw.
\<close>

theorem web_access_line_record:
  "access_parse web_access_line
     = Some [(''timestamp'', PyStr ''2025-02-13T11:22:33+00:00''), (''ip'', PyStr ''192.168.1.1''),
             (''method'', PyStr ''GET''), (''endpoint'', PyStr ''/api/users''),
             (''status'', PyStr ''200''), (''size'', PyInt 1234)]
   \<and> ingest_file year ''access.log'' None (Some [web_access_line @ [CHR 0x0A]]) empty_indexer
     = (''Ingested 1 events from access.log (access format)'',
        \<lparr>idx_rows = [[(''log_type'', PyStr ''access''),
                       (''timestamp'', PyStr ''2025-02-13T11:22:33+00:00''),
                       (''host'', PyNone), (''service'', PyNone), (''message'', PyNone),
                       (''ip'', PyStr ''192.168.1.1''), (''method'', PyStr ''GET''),
                       (''endpoint'', PyStr ''/api/users''), (''status'', PyStr ''200''),
                       (''size'', PyInt 1234), (''user'', PyNone), (''action'', PyNone),
                       (''raw'', PyStr web_access_line)]],
         idx_committed = 1\<rparr>)"
  by code_simp

theorem web_access_line_record_witness:
  "map_option (\<lambda>d. (dict_get d ''ip'', dict_get d ''method'', dict_get d ''endpoint'',
                     dict_get d ''status'', dict_get d ''size'', dict_get d ''timestamp''))
      (access_parse web_access_line)
     = Some (PyStr ''192.168.1.1'', PyStr ''GET'', PyStr ''/api/users'', PyStr ''200'', PyInt 1234,
             PyStr ''2025-02-13T11:22:33+00:00'')"
  using web_access_line_record[of 2025] by (simp add: dict_get_def)







section \<open>Properties of the time buckets\<close>








end
